theory Spec2Isabelle
  imports Main "HOL-Library.Word"
begin

section \<open>Data model\<close>

subsection \<open>OpenGL scalar types\<close>

text \<open>
  The GL typedefs are fixed-width machine integers. \<open>GLint\<close> and Magnum's \<open>Int\<close> are
  two's complement (read with \<open>sint\<close>); the code below only stores them and compares
  them with zero. \<open>std::size_t\<close> is taken at 64 bits; \<open>++i\<close> on it wraps around.
  A C++ object is named by its address.
\<close>

type_synonym GLuint = "32 word"
type_synonym GLint = "32 word"
type_synonym GLenum = "32 word"
type_synonym GLintptr = "64 word"
type_synonym GLsizeiptr = "64 word"
type_synonym Magnum_Int = "32 word"
type_synonym Magnum_UnsignedInt = "32 word"
type_synonym size_t = "64 word"
type_synonym addr = nat

subsection \<open>Buffer objects\<close>

text \<open>
  \<open>Buffer::TargetHint\<close>, with the enumerators of the desktop build as listed by the
  debug output operator at the end of \<^verbatim>\<open>Buffer.cpp\<close>.
\<close>

datatype TargetHint =
    Array
  | AtomicCounter
  | CopyRead
  | CopyWrite
  | DispatchIndirect
  | DrawIndirect
  | ElementArray
  | PixelPack
  | PixelUnpack
  | ShaderStorage
  | Texture
  | TransformFeedback
  | Uniform

datatype ObjectFlag = Created | DeleteOnDestruction

text \<open>The members \<open>_id\<close>, \<open>_targetHint\<close> and \<open>_flags\<close> of a \<open>Buffer\<close>.\<close>

record Buffer =
  m_id :: GLuint
  m_targetHint :: TargetHint
  m_flags :: "ObjectFlag set"

subsection \<open>Context, tracked state and the driver\<close>

datatype Extension =
    ARB_map_buffer_alignment
  | ARB_shader_atomic_counters
  | ARB_shader_storage_buffer_object
  | ARB_uniform_buffer_object
  | ARB_ES2_compatibility
  | ARB_robustness
  | EXT_robustness

datatype Version = GLES310

text \<open>
  What \<open>Context::isExtensionSupported<E>()\<close> and \<open>Context::isVersionSupported(v)\<close>
  answer. \<^verbatim>\<open>Context.h\<close> is not part of the sources at hand, so the answers are
  inputs.
\<close>

record Context =
  isExtensionSupported :: "Extension \<Rightarrow> bool"
  isVersionSupported :: "Version \<Rightarrow> bool"

text \<open>
  The preprocessor configuration: \<open>Desktop\<close> is a build without
  \<open>MAGNUM_TARGET_GLES\<close>, \<open>GLES\<close> one with it (and without
  \<open>MAGNUM_TARGET_GLES2\<close> and \<open>MAGNUM_TARGET_WEBGL\<close>, where the functions
  concerned exist at all).
\<close>

datatype BuildTarget = Desktop | GLES

text \<open>
  \<open>Implementation::BufferState\<close>: the buffer id bound to each target, and the cached
  limits. The constants and tables of \<^verbatim>\<open>BufferState.h\<close> that \<^verbatim>\<open>Buffer.cpp\<close> uses are
  not part of the sources at hand; they are parameters of the model.
\<close>

record BufferState =
  bindings :: "GLuint list"
  minMapAlignment :: GLint
  maxAtomicCounterBindings :: GLint
  maxShaderStorageBindings :: GLint
  uniformOffsetAlignment :: GLint
  shaderStorageOffsetAlignment :: GLint
  maxUniformBindings :: GLint

record BufferStateDecl =
  TargetCount :: size_t
  indexForTarget :: "TargetHint \<Rightarrow> size_t"
  targetForIndex :: "TargetHint list"

datatype GLpname =
    GL_MIN_MAP_BUFFER_ALIGNMENT
  | GL_MAX_ATOMIC_COUNTER_BUFFER_BINDINGS
  | GL_MAX_SHADER_STORAGE_BUFFER_BINDINGS
  | GL_UNIFORM_BUFFER_OFFSET_ALIGNMENT
  | GL_SHADER_STORAGE_BUFFER_OFFSET_ALIGNMENT
  | GL_MAX_UNIFORM_BUFFER_BINDINGS

text \<open>The driver entry points called by the code modelled here, with their arguments.\<close>

datatype gl_call =
    glGetIntegerv GLpname
  | glBindBuffer TargetHint GLuint
  | glDeleteBuffers GLuint
  | glCopyBufferSubData TargetHint TargetHint GLintptr GLintptr GLsizeiptr
  | glCopyNamedBufferSubData GLuint GLuint GLintptr GLintptr GLsizeiptr
  | glNamedCopyBufferSubDataEXT GLuint GLuint GLintptr GLintptr GLsizeiptr
  | glGetBufferParameteriv TargetHint GLenum
  | glGetNamedBufferParameteriv GLuint GLenum
  | glGetNamedBufferParameterivEXT GLuint GLenum
  | glBufferData TargetHint GLsizeiptr addr GLenum
  | glNamedBufferData GLuint GLsizeiptr addr GLenum
  | glNamedBufferDataEXT GLuint GLsizeiptr addr GLenum
  | glBufferSubData TargetHint GLintptr GLsizeiptr addr
  | glNamedBufferSubData GLuint GLintptr GLsizeiptr addr
  | glNamedBufferSubDataEXT GLuint GLintptr GLsizeiptr addr
  | glMapBuffer TargetHint GLenum
  | glMapNamedBuffer GLuint GLenum
  | glMapNamedBufferEXT GLuint GLenum

text \<open>
  The state the code runs in: the current context, its tracked buffer state, the
  \<open>Buffer\<close> objects by address, the driver calls issued so far (oldest first), for
  each of these calls the binding cache as it was at the moment the call was issued
  (\<open>glCallBindings\<close>, in the same order), and the
  driver itself, which answers a call as a function of all calls issued up to and
  including it: \<open>glReplyInt\<close> is the integer written through an out-pointer,
  \<open>glReplyPtr\<close> a returned pointer. A \<open>glGetIntegerv\<close> that fails leaves its
  target as it is; as the target is 0 whenever the code below issues the call, that case
  is the reply 0.
\<close>

record World =
  current :: Context
  state_buffer :: BufferState
  objects :: "addr \<Rightarrow> Buffer"
  glCalls :: "gl_call list"
  glCallBindings :: "GLuint list list"
  glReplyInt :: "gl_call list \<Rightarrow> GLint"
  glReplyPtr :: "gl_call list \<Rightarrow> addr"

definition issue :: "gl_call \<Rightarrow> World \<Rightarrow> World" where
  "issue c w = w\<lparr>glCalls := glCalls w @ [c],
                   glCallBindings := glCallBindings w @ [bindings (state_buffer w)]\<rparr>"

definition setBinding :: "nat \<Rightarrow> GLuint \<Rightarrow> World \<Rightarrow> World" where
  "setBinding i v w =
     w\<lparr>state_buffer := (state_buffer w)\<lparr>bindings := (bindings (state_buffer w))[i := v]\<rparr>\<rparr>"

definition setCreated :: "addr \<Rightarrow> World \<Rightarrow> World" where
  "setCreated b w =
     w\<lparr>objects := (objects w)(b := (objects w b)\<lparr>m_flags := insert Created (m_flags (objects w b))\<rparr>)\<rparr>"

section \<open>Buffer binding\<close>

text \<open>
  \<open>Buffer::bindInternal(target, buffer)\<close>; \<open>buffer\<close> is a pointer, \<open>None\<close> when
  null.
\<close>

definition Buffer_bindInternal :: "BufferStateDecl \<Rightarrow> TargetHint \<Rightarrow> addr option \<Rightarrow> World \<Rightarrow> World" where
  "Buffer_bindInternal D target buffer w =
     (let idv = (case buffer of Some b \<Rightarrow> m_id (objects w b) | None \<Rightarrow> 0);
          slot = unat (indexForTarget D target)
      in if bindings (state_buffer w) ! slot = idv then w
         else let w1 = setBinding slot idv w;
                  w2 = (case buffer of Some b \<Rightarrow> setCreated b w1 | None \<Rightarrow> w1)
              in issue (glBindBuffer target idv) w2)"

text \<open>
  The search loop of \<open>Buffer::bindSomewhereInternal\<close>,
  \<^verbatim>\<open>for(std::size_t i = 1; i != TargetCount; ++i) if(bindings[i] == _id) return ...\<close>,
  from counter \<open>i\<close> on: the first counter value at which the loop returns, or
  \<open>None\<close> when it runs to its end.
\<close>

function bindSomewhere_loop :: "size_t \<Rightarrow> GLuint list \<Rightarrow> GLuint \<Rightarrow> size_t \<Rightarrow> size_t option" where
  "bindSomewhere_loop n bs idv i =
     (if i = n then None
      else if bs ! unat i = idv then Some i
      else bindSomewhere_loop n bs idv (i + 1))"
  by pat_completeness auto
termination
proof (relation "measure (\<lambda>(n, bs, idv, i). unat (n - i))")
  show "wf (measure (\<lambda>(n :: size_t, bs :: GLuint list, idv :: GLuint, i :: size_t). unat (n - i)))"
    by simp
next
  fix n i :: size_t and bs :: "GLuint list" and idv :: GLuint
  assume "i \<noteq> n"
  then have nz: "n - i \<noteq> 0" by simp
  have "unat (n - (i + 1)) = unat ((n - i) - 1)"
    by (simp only: diff_diff_eq)
  also have "\<dots> = unat (n - i) - 1"
    by (rule unat_minus_one [OF nz])
  finally have "unat (n - (i + 1)) = unat (n - i) - 1" .
  moreover have "0 < unat (n - i)" using nz by (simp add: unat_gt_0)
  ultimately show "((n, bs, idv, i + 1), (n, bs, idv, i)) \<in> measure (\<lambda>(n, bs, idv, i). unat (n - i))"
    by simp
qed

declare bindSomewhere_loop.simps [simp del]

text \<open>\<open>Buffer::bindSomewhereInternal(hint)\<close> on the buffer at address \<open>this\<close>.\<close>

definition Buffer_bindSomewhereInternal :: "BufferStateDecl \<Rightarrow> addr \<Rightarrow> TargetHint \<Rightarrow> World \<Rightarrow> TargetHint \<times> World" where
  "Buffer_bindSomewhereInternal D this hint w =
     (let bs = bindings (state_buffer w);
          idv = m_id (objects w this);
          slot = unat (indexForTarget D hint)
      in if bs ! slot = idv then (hint, w)
         else (case bindSomewhere_loop (TargetCount D) bs idv 1 of
                 Some i \<Rightarrow> (targetForIndex D ! unat (i - 1), w)
               | None \<Rightarrow> (hint, issue (glBindBuffer hint idv) (setCreated this (setBinding slot idv w)))))"

section \<open>Buffer destruction\<close>

text \<open>
  The loop of the destructor,
  \<^verbatim>\<open>for(std::size_t i = 1; i != TargetCount; ++i) if(bindings[i] == _id) bindings[i] = 0;\<close>,
  from counter \<open>i\<close> on.
\<close>

function destructor_loop :: "size_t \<Rightarrow> GLuint \<Rightarrow> size_t \<Rightarrow> GLuint list \<Rightarrow> GLuint list" where
  "destructor_loop n idv i bs =
     (if i = n then bs
      else destructor_loop n idv (i + 1) (if bs ! unat i = idv then bs[unat i := 0] else bs))"
  by pat_completeness auto
termination
proof (relation "measure (\<lambda>(n, idv, i, bs). unat (n - i))")
  show "wf (measure (\<lambda>(n :: size_t, idv :: GLuint, i :: size_t, bs :: GLuint list). unat (n - i)))"
    by simp
next
  fix n i :: size_t and bs :: "GLuint list" and idv :: GLuint
  assume "i \<noteq> n"
  then have nz: "n - i \<noteq> 0" by simp
  have "unat (n - (i + 1)) = unat ((n - i) - 1)"
    by (simp only: diff_diff_eq)
  also have "\<dots> = unat (n - i) - 1"
    by (rule unat_minus_one [OF nz])
  finally have "unat (n - (i + 1)) = unat (n - i) - 1" .
  moreover have "0 < unat (n - i)" using nz by (simp add: unat_gt_0)
  ultimately show "((n, idv, i + 1, if bs ! unat i = idv then bs[unat i := 0] else bs), (n, idv, i, bs))
      \<in> measure (\<lambda>(n, idv, i, bs). unat (n - i))"
    by simp
qed

declare destructor_loop.simps [simp del]

text \<open>\<open>Buffer::~Buffer()\<close> on the buffer at address \<open>this\<close>.\<close>

definition Buffer_destructor :: "BufferStateDecl \<Rightarrow> addr \<Rightarrow> World \<Rightarrow> World" where
  "Buffer_destructor D this w =
     (let b = objects w this
      in if m_id b = 0 \<or> DeleteOnDestruction \<notin> m_flags b then w
         else let w1 = w\<lparr>state_buffer := (state_buffer w)\<lparr>bindings :=
                          destructor_loop (TargetCount D) (m_id b) 1 (bindings (state_buffer w))\<rparr>\<rparr>
              in issue (glDeleteBuffers (m_id b)) w1)"

section \<open>Cached limit queries\<close>

text \<open>
  \<open>glGetIntegerv(pname, &value)\<close>: the call is issued and the driver's answer is what
  \<open>value\<close> holds afterwards.
\<close>

definition call_glGetIntegerv :: "GLpname \<Rightarrow> World \<Rightarrow> GLint \<times> World" where
  "call_glGetIntegerv pname w =
     (let w1 = issue (glGetIntegerv pname) w in (glReplyInt w1 (glCalls w1), w1))"

text \<open>\<open>Buffer::minMapAlignment()\<close>; it exists in the desktop build only.\<close>

definition Buffer_minMapAlignment :: "World \<Rightarrow> GLint \<times> World" where
  "Buffer_minMapAlignment w =
     (if \<not> isExtensionSupported (current w) ARB_map_buffer_alignment then (1, w)
      else let w' = (if minMapAlignment (state_buffer w) = 0
                     then (let (v, w1) = call_glGetIntegerv GL_MIN_MAP_BUFFER_ALIGNMENT w
                           in w1\<lparr>state_buffer := (state_buffer w1)\<lparr>minMapAlignment := v\<rparr>\<rparr>)
                     else w)
           in (minMapAlignment (state_buffer w'), w'))"

definition Buffer_maxAtomicCounterBindings :: "BuildTarget \<Rightarrow> World \<Rightarrow> GLint \<times> World" where
  "Buffer_maxAtomicCounterBindings t w =
     (if \<not> (case t of Desktop \<Rightarrow> isExtensionSupported (current w) ARB_shader_atomic_counters
                     | GLES \<Rightarrow> isVersionSupported (current w) GLES310) then (0, w)
      else let w' = (if maxAtomicCounterBindings (state_buffer w) = 0
                     then (let (v, w1) = call_glGetIntegerv GL_MAX_ATOMIC_COUNTER_BUFFER_BINDINGS w
                           in w1\<lparr>state_buffer := (state_buffer w1)\<lparr>maxAtomicCounterBindings := v\<rparr>\<rparr>)
                     else w)
           in (maxAtomicCounterBindings (state_buffer w'), w'))"

definition Buffer_maxShaderStorageBindings :: "BuildTarget \<Rightarrow> World \<Rightarrow> GLint \<times> World" where
  "Buffer_maxShaderStorageBindings t w =
     (if \<not> (case t of Desktop \<Rightarrow> isExtensionSupported (current w) ARB_shader_storage_buffer_object
                     | GLES \<Rightarrow> isVersionSupported (current w) GLES310) then (0, w)
      else let w' = (if maxShaderStorageBindings (state_buffer w) = 0
                     then (let (v, w1) = call_glGetIntegerv GL_MAX_SHADER_STORAGE_BUFFER_BINDINGS w
                           in w1\<lparr>state_buffer := (state_buffer w1)\<lparr>maxShaderStorageBindings := v\<rparr>\<rparr>)
                     else w)
           in (maxShaderStorageBindings (state_buffer w'), w'))"

text \<open>
  \<open>Buffer::uniformOffsetAlignment()\<close> and \<open>Buffer::maxUniformBindings()\<close> check the
  extension in the desktop build only.
\<close>

definition Buffer_uniformOffsetAlignment :: "BuildTarget \<Rightarrow> World \<Rightarrow> GLint \<times> World" where
  "Buffer_uniformOffsetAlignment t w =
     (if t = Desktop \<and> \<not> isExtensionSupported (current w) ARB_uniform_buffer_object then (1, w)
      else let w' = (if uniformOffsetAlignment (state_buffer w) = 0
                     then (let (v, w1) = call_glGetIntegerv GL_UNIFORM_BUFFER_OFFSET_ALIGNMENT w
                           in w1\<lparr>state_buffer := (state_buffer w1)\<lparr>uniformOffsetAlignment := v\<rparr>\<rparr>)
                     else w)
           in (uniformOffsetAlignment (state_buffer w'), w'))"

definition Buffer_shaderStorageOffsetAlignment :: "BuildTarget \<Rightarrow> World \<Rightarrow> GLint \<times> World" where
  "Buffer_shaderStorageOffsetAlignment t w =
     (if \<not> (case t of Desktop \<Rightarrow> isExtensionSupported (current w) ARB_shader_storage_buffer_object
                     | GLES \<Rightarrow> isVersionSupported (current w) GLES310) then (1, w)
      else let w' = (if shaderStorageOffsetAlignment (state_buffer w) = 0
                     then (let (v, w1) = call_glGetIntegerv GL_SHADER_STORAGE_BUFFER_OFFSET_ALIGNMENT w
                           in w1\<lparr>state_buffer := (state_buffer w1)\<lparr>shaderStorageOffsetAlignment := v\<rparr>\<rparr>)
                     else w)
           in (shaderStorageOffsetAlignment (state_buffer w'), w'))"

definition Buffer_maxUniformBindings :: "BuildTarget \<Rightarrow> World \<Rightarrow> GLint \<times> World" where
  "Buffer_maxUniformBindings t w =
     (if t = Desktop \<and> \<not> isExtensionSupported (current w) ARB_uniform_buffer_object then (0, w)
      else let w' = (if maxUniformBindings (state_buffer w) = 0
                     then (let (v, w1) = call_glGetIntegerv GL_MAX_UNIFORM_BUFFER_BINDINGS w
                           in w1\<lparr>state_buffer := (state_buffer w1)\<lparr>maxUniformBindings := v\<rparr>\<rparr>)
                     else w)
           in (maxUniformBindings (state_buffer w'), w'))"

section \<open>Implementations of the buffer operations\<close>

text \<open>
  Each operation on the buffer at address \<open>this\<close>. The \<open>Default\<close> variants go through
  \<open>bindSomewhereInternal\<close>; the \<open>DSA\<close> and \<open>DSAEXT\<close> variants exist in the desktop
  build only, and the \<open>Default\<close> variants are modelled in that build as well:
  \<open>mapImplementationDefault\<close> calls \<open>glMapBuffer\<close> there, where the ES build
  calls \<open>glMapBufferOES\<close> in its place. Data pointers are addresses.
\<close>

definition Buffer_dataImplementationDefault :: "BufferStateDecl \<Rightarrow> addr \<Rightarrow> GLsizeiptr \<Rightarrow> addr \<Rightarrow> GLenum \<Rightarrow> World \<Rightarrow> World" where
  "Buffer_dataImplementationDefault D this size' data usage w =
     (let (t, w1) = Buffer_bindSomewhereInternal D this (m_targetHint (objects w this)) w
      in issue (glBufferData t size' data usage) w1)"

definition Buffer_dataImplementationDSA :: "addr \<Rightarrow> GLsizeiptr \<Rightarrow> addr \<Rightarrow> GLenum \<Rightarrow> World \<Rightarrow> World" where
  "Buffer_dataImplementationDSA this size' data usage w =
     issue (glNamedBufferData (m_id (objects w this)) size' data usage) w"

definition Buffer_dataImplementationDSAEXT :: "addr \<Rightarrow> GLsizeiptr \<Rightarrow> addr \<Rightarrow> GLenum \<Rightarrow> World \<Rightarrow> World" where
  "Buffer_dataImplementationDSAEXT this size' data usage w =
     (let w1 = setCreated this w
      in issue (glNamedBufferDataEXT (m_id (objects w1 this)) size' data usage) w1)"

definition Buffer_subDataImplementationDefault :: "BufferStateDecl \<Rightarrow> addr \<Rightarrow> GLintptr \<Rightarrow> GLsizeiptr \<Rightarrow> addr \<Rightarrow> World \<Rightarrow> World" where
  "Buffer_subDataImplementationDefault D this offset' size' data w =
     (let (t, w1) = Buffer_bindSomewhereInternal D this (m_targetHint (objects w this)) w
      in issue (glBufferSubData t offset' size' data) w1)"

definition Buffer_subDataImplementationDSA :: "addr \<Rightarrow> GLintptr \<Rightarrow> GLsizeiptr \<Rightarrow> addr \<Rightarrow> World \<Rightarrow> World" where
  "Buffer_subDataImplementationDSA this offset' size' data w =
     issue (glNamedBufferSubData (m_id (objects w this)) offset' size' data) w"

definition Buffer_subDataImplementationDSAEXT :: "addr \<Rightarrow> GLintptr \<Rightarrow> GLsizeiptr \<Rightarrow> addr \<Rightarrow> World \<Rightarrow> World" where
  "Buffer_subDataImplementationDSAEXT this offset' size' data w =
     (let w1 = setCreated this w
      in issue (glNamedBufferSubDataEXT (m_id (objects w1 this)) offset' size' data) w1)"

text \<open>
  \<open>Buffer::copyImplementationDefault(read, write, ...)\<close> calls
  \<open>bindSomewhereInternal\<close> on both buffers inside the argument list of
  \<open>glCopyBufferSubData\<close>. C++ leaves the order of the two calls open, so the order
  is an input: \<open>readFirst\<close>.
\<close>

definition Buffer_copyImplementationDefault :: "BufferStateDecl \<Rightarrow> bool \<Rightarrow> addr \<Rightarrow> addr \<Rightarrow> GLintptr \<Rightarrow> GLintptr \<Rightarrow> GLsizeiptr \<Rightarrow> World \<Rightarrow> World" where
  "Buffer_copyImplementationDefault D readFirst read write readOffset writeOffset size' w =
     (if readFirst
      then (let (r, w1) = Buffer_bindSomewhereInternal D read CopyRead w;
                (t, w2) = Buffer_bindSomewhereInternal D write CopyWrite w1
            in issue (glCopyBufferSubData r t readOffset writeOffset size') w2)
      else (let (t, w1) = Buffer_bindSomewhereInternal D write CopyWrite w;
                (r, w2) = Buffer_bindSomewhereInternal D read CopyRead w1
            in issue (glCopyBufferSubData r t readOffset writeOffset size') w2))"

definition Buffer_copyImplementationDSA :: "addr \<Rightarrow> addr \<Rightarrow> GLintptr \<Rightarrow> GLintptr \<Rightarrow> GLsizeiptr \<Rightarrow> World \<Rightarrow> World" where
  "Buffer_copyImplementationDSA read write readOffset writeOffset size' w =
     issue (glCopyNamedBufferSubData (m_id (objects w read)) (m_id (objects w write))
              readOffset writeOffset size') w"

definition Buffer_copyImplementationDSAEXT :: "addr \<Rightarrow> addr \<Rightarrow> GLintptr \<Rightarrow> GLintptr \<Rightarrow> GLsizeiptr \<Rightarrow> World \<Rightarrow> World" where
  "Buffer_copyImplementationDSAEXT read write readOffset writeOffset size' w =
     (let w1 = setCreated write (setCreated read w)
      in issue (glNamedCopyBufferSubDataEXT (m_id (objects w1 read)) (m_id (objects w1 write))
                  readOffset writeOffset size') w1)"

text \<open>
  The \<open>getParameter\<close> implementations write the driver's answer to \<open>*data\<close>; the
  model returns it. The \<open>map\<close> implementations return the driver's pointer.
\<close>

definition Buffer_getParameterImplementationDefault :: "BufferStateDecl \<Rightarrow> addr \<Rightarrow> GLenum \<Rightarrow> World \<Rightarrow> GLint \<times> World" where
  "Buffer_getParameterImplementationDefault D this value w =
     (let (t, w1) = Buffer_bindSomewhereInternal D this (m_targetHint (objects w this)) w;
          w2 = issue (glGetBufferParameteriv t value) w1
      in (glReplyInt w2 (glCalls w2), w2))"

definition Buffer_getParameterImplementationDSA :: "addr \<Rightarrow> GLenum \<Rightarrow> World \<Rightarrow> GLint \<times> World" where
  "Buffer_getParameterImplementationDSA this value w =
     (let w2 = issue (glGetNamedBufferParameteriv (m_id (objects w this)) value) w
      in (glReplyInt w2 (glCalls w2), w2))"

definition Buffer_getParameterImplementationDSAEXT :: "addr \<Rightarrow> GLenum \<Rightarrow> World \<Rightarrow> GLint \<times> World" where
  "Buffer_getParameterImplementationDSAEXT this value w =
     (let w1 = setCreated this w;
          w2 = issue (glGetNamedBufferParameterivEXT (m_id (objects w1 this)) value) w1
      in (glReplyInt w2 (glCalls w2), w2))"

definition Buffer_mapImplementationDefault :: "BufferStateDecl \<Rightarrow> addr \<Rightarrow> GLenum \<Rightarrow> World \<Rightarrow> addr \<times> World" where
  "Buffer_mapImplementationDefault D this access w =
     (let (t, w1) = Buffer_bindSomewhereInternal D this (m_targetHint (objects w this)) w;
          w2 = issue (glMapBuffer t access) w1
      in (glReplyPtr w2 (glCalls w2), w2))"

definition Buffer_mapImplementationDSA :: "addr \<Rightarrow> GLenum \<Rightarrow> World \<Rightarrow> addr \<times> World" where
  "Buffer_mapImplementationDSA this access w =
     (let w2 = issue (glMapNamedBuffer (m_id (objects w this)) access) w
      in (glReplyPtr w2 (glCalls w2), w2))"

definition Buffer_mapImplementationDSAEXT :: "addr \<Rightarrow> GLenum \<Rightarrow> World \<Rightarrow> addr \<times> World" where
  "Buffer_mapImplementationDSAEXT this access w =
     (let w1 = setCreated this w;
          w2 = issue (glMapNamedBufferEXT (m_id (objects w1 this)) access) w1
      in (glReplyPtr w2 (glCalls w2), w2))"

section \<open>Renderer state\<close>

text \<open>The member functions of \<open>Renderer\<close> that the two dispatched pointers can hold.\<close>

datatype ClearDepthfImplementation =
    clearDepthfImplementationDefault
  | clearDepthfImplementationES

datatype GraphicsResetStatusImplementation =
    graphicsResetStatusImplementationDefault
  | graphicsResetStatusImplementationRobustness

text \<open>
  \<open>Implementation::RendererState\<close>. A pointer member that has not been assigned is
  \<open>None\<close>.
\<close>

record RendererState =
  clearDepthfImplementation :: "ClearDepthfImplementation option"
  graphicsResetStatusImplementation :: "GraphicsResetStatusImplementation option"
  resetNotificationStrategy :: GLenum

text \<open>
  \<open>RendererState::RendererState(context, extensions)\<close>. The member initialiser list
  value-initialises \<open>resetNotificationStrategy\<close> only. The body \<open>push_back\<close>s on
  \<open>extensions\<close>, which is passed by reference: the model returns the list as well.
  \<open>E::string()\<close> is declared in \<^verbatim>\<open>Extensions.h\<close>, which is not part of the sources at
  hand: \<open>string_of\<close> is an input.
\<close>

definition RendererState_ctor :: "BuildTarget \<Rightarrow> (Extension \<Rightarrow> string) \<Rightarrow> Context \<Rightarrow> string list \<Rightarrow> RendererState \<times> string list" where
  "RendererState_ctor t string_of ctx extensions =
     (let r0 = \<lparr>clearDepthfImplementation = None,
                graphicsResetStatusImplementation = None,
                resetNotificationStrategy = 0\<rparr>;
          (r1, e1) =
            (if (case t of Desktop \<Rightarrow> isExtensionSupported ctx ARB_ES2_compatibility | GLES \<Rightarrow> True)
             then (r0\<lparr>clearDepthfImplementation := Some clearDepthfImplementationES\<rparr>,
                   (case t of Desktop \<Rightarrow> extensions @ [string_of ARB_ES2_compatibility]
                            | GLES \<Rightarrow> extensions))
             else (r0\<lparr>clearDepthfImplementation := Some clearDepthfImplementationDefault\<rparr>,
                   extensions));
          robustness = (case t of Desktop \<Rightarrow> ARB_robustness | GLES \<Rightarrow> EXT_robustness)
      in if isExtensionSupported ctx robustness
         then (r1\<lparr>graphicsResetStatusImplementation := Some graphicsResetStatusImplementationRobustness\<rparr>,
               e1 @ [string_of robustness])
         else (r1\<lparr>graphicsResetStatusImplementation := Some graphicsResetStatusImplementationDefault\<rparr>,
               e1))"

section \<open>Mesh views\<close>

text \<open>
  The data members of \<open>MeshView\<close> in the desktop build, where all of them exist.
  \<open>_original\<close> is a reference to the mesh: its address.
\<close>

record MeshView =
  m_original :: addr
  m_count :: Magnum_Int
  m_baseVertex :: Magnum_Int
  m_instanceCount :: Magnum_Int
  m_baseInstance :: Magnum_UnsignedInt
  m_indexOffset :: GLintptr
  m_indexStart :: Magnum_UnsignedInt
  m_indexEnd :: Magnum_UnsignedInt

text \<open>
  The views by address. A constructor initialises the object at \<open>this\<close>; a setter
  updates it and returns \<open>*this\<close>: the address of the object it returns a reference to.
\<close>

type_synonym MeshViews = "addr \<Rightarrow> MeshView"

definition MeshView_ctor :: "addr \<Rightarrow> addr \<Rightarrow> MeshViews \<Rightarrow> MeshViews" where
  "MeshView_ctor this original h =
     h(this := \<lparr>m_original = original, m_count = 0, m_baseVertex = 0, m_instanceCount = 1,
                m_baseInstance = 0, m_indexOffset = 0, m_indexStart = 0, m_indexEnd = 0\<rparr>)"

definition MeshView_setCount :: "addr \<Rightarrow> Magnum_Int \<Rightarrow> MeshViews \<Rightarrow> addr \<times> MeshViews" where
  "MeshView_setCount this count h = (this, h(this := (h this)\<lparr>m_count := count\<rparr>))"

definition MeshView_setBaseVertex :: "addr \<Rightarrow> Magnum_Int \<Rightarrow> MeshViews \<Rightarrow> addr \<times> MeshViews" where
  "MeshView_setBaseVertex this baseVertex h = (this, h(this := (h this)\<lparr>m_baseVertex := baseVertex\<rparr>))"

definition MeshView_setInstanceCount :: "addr \<Rightarrow> Magnum_Int \<Rightarrow> MeshViews \<Rightarrow> addr \<times> MeshViews" where
  "MeshView_setInstanceCount this count h = (this, h(this := (h this)\<lparr>m_instanceCount := count\<rparr>))"

definition MeshView_setBaseInstance :: "addr \<Rightarrow> Magnum_UnsignedInt \<Rightarrow> MeshViews \<Rightarrow> addr \<times> MeshViews" where
  "MeshView_setBaseInstance this baseInstance h = (this, h(this := (h this)\<lparr>m_baseInstance := baseInstance\<rparr>))"

text \<open>
  \<open>MeshView::setIndexRange(Int, UnsignedInt, UnsignedInt)\<close>. It calls the overload
  \<open>setIndexRange(Int)\<close>, which is defined in \<^verbatim>\<open>MeshView.cpp\<close>, not part of the
  sources at hand: that overload is the input \<open>setIndexRange1\<close>. Its result is
  discarded.
\<close>

definition MeshView_setIndexRange :: "(addr \<Rightarrow> Magnum_Int \<Rightarrow> MeshViews \<Rightarrow> addr \<times> MeshViews) \<Rightarrow> addr \<Rightarrow> Magnum_Int \<Rightarrow> Magnum_UnsignedInt \<Rightarrow> Magnum_UnsignedInt \<Rightarrow> MeshViews \<Rightarrow> addr \<times> MeshViews" where
  "MeshView_setIndexRange setIndexRange1 this first start end' h =
     (let h1 = snd (setIndexRange1 this first h);
          h2 = h1(this := (h1 this)\<lparr>m_indexStart := start\<rparr>);
          h3 = h2(this := (h2 this)\<lparr>m_indexEnd := end'\<rparr>)
      in (this, h3))"

section \<open>Well-formed tables\<close>

definition allTargetHints :: "TargetHint list" where
  "allTargetHints = [Array, AtomicCounter, CopyRead, CopyWrite, DispatchIndirect, DrawIndirect,
     ElementArray, PixelPack, PixelUnpack, ShaderStorage, Texture, TransformFeedback, Uniform]"

text \<open>
  What \<^verbatim>\<open>Buffer.cpp\<close> relies on in the declarations it uses:
  \<open>targetForIndex\<close> is an array of \<open>TargetCount - 1\<close> targets,
  \<open>indexForTarget\<close> answers an index into \<open>bindings\<close>,
  and the target stored at position \<open>k\<close> of \<open>targetForIndex\<close> has index \<open>k + 1\<close>.
\<close>

definition decl_ok :: "BufferStateDecl \<Rightarrow> bool" where
  "decl_ok D \<longleftrightarrow>
     length (targetForIndex D) + 1 = unat (TargetCount D) \<and>
     list_all (\<lambda>t. indexForTarget D t < TargetCount D) allTargetHints \<and>
     map (indexForTarget D) (targetForIndex D) = map of_nat [1 ..< unat (TargetCount D)]"

text \<open>\<open>bindings\<close> is declared as an array of \<open>TargetCount\<close> ids.\<close>

definition bindings_ok :: "BufferStateDecl \<Rightarrow> World \<Rightarrow> bool" where
  "bindings_ok D w \<longleftrightarrow> length (bindings (state_buffer w)) = unat (TargetCount D)"

section \<open>Instances to evaluate on\<close>

text \<open>
  A table for the thirteen desktop targets, a context that supports every extension and
  one that supports none, and a state with nothing bound, nothing cached, the buffer at
  address \<open>a\<close> holding id \<open>a + 1\<close>, and a driver that answers every query with 16.
\<close>

definition desktopDecl :: BufferStateDecl where
  "desktopDecl =
     \<lparr>TargetCount = 14,
      indexForTarget = (\<lambda>t. case t of
          Array \<Rightarrow> 1 | ElementArray \<Rightarrow> 2 | CopyRead \<Rightarrow> 3 | CopyWrite \<Rightarrow> 4
        | PixelPack \<Rightarrow> 5 | PixelUnpack \<Rightarrow> 6 | TransformFeedback \<Rightarrow> 7 | Uniform \<Rightarrow> 8
        | AtomicCounter \<Rightarrow> 9 | DispatchIndirect \<Rightarrow> 10 | DrawIndirect \<Rightarrow> 11
        | ShaderStorage \<Rightarrow> 12 | Texture \<Rightarrow> 13),
      targetForIndex = [Array, ElementArray, CopyRead, CopyWrite, PixelPack, PixelUnpack,
        TransformFeedback, Uniform, AtomicCounter, DispatchIndirect, DrawIndirect,
        ShaderStorage, Texture]\<rparr>"

definition everything :: Context where
  "everything = \<lparr>isExtensionSupported = (\<lambda>e. True), isVersionSupported = (\<lambda>v. True)\<rparr>"

definition nothing :: Context where
  "nothing = \<lparr>isExtensionSupported = (\<lambda>e. False), isVersionSupported = (\<lambda>v. False)\<rparr>"

definition freshState :: BufferState where
  "freshState =
     \<lparr>bindings = replicate 14 0, minMapAlignment = 0, maxAtomicCounterBindings = 0,
      maxShaderStorageBindings = 0, uniformOffsetAlignment = 0,
      shaderStorageOffsetAlignment = 0, maxUniformBindings = 0\<rparr>"

definition freshWorld :: "Context \<Rightarrow> World" where
  "freshWorld ctx =
     \<lparr>current = ctx,
      state_buffer = freshState,
      objects = (\<lambda>a. \<lparr>m_id = of_nat (a + 1), m_targetHint = Array,
                         m_flags = {DeleteOnDestruction}\<rparr>),
      glCalls = [],
      glCallBindings = [],
      glReplyInt = (\<lambda>cs. 16),
      glReplyPtr = (\<lambda>cs. 4096)\<rparr>"

text \<open>The same state after the buffer at address 0 (id 1) was bound to \<open>Array\<close>.\<close>

definition arrayBoundWorld :: World where
  "arrayBoundWorld =
     (freshWorld everything)\<lparr>state_buffer := freshState\<lparr>bindings := [0, 1, 0, 0, 0, 0, 0, 0, 0, 0, 0, 0, 0, 0]\<rparr>\<rparr>"

text \<open>The same state with the buffer at address 0 (id 1) bound to \<open>CopyWrite\<close> only.\<close>

definition copyWriteBoundWorld :: World where
  "copyWriteBoundWorld =
     (freshWorld everything)\<lparr>state_buffer := freshState\<lparr>bindings := [0, 0, 0, 0, 1, 0, 0, 0, 0, 0, 0, 0, 0, 0]\<rparr>\<rparr>"

text \<open>A store of mesh views in which every member of every view is 9.\<close>

definition ninesViews :: MeshViews where
  "ninesViews = (\<lambda>a. \<lparr>m_original = 9, m_count = 9, m_baseVertex = 9, m_instanceCount = 9,
     m_baseInstance = 9, m_indexOffset = 9, m_indexStart = 9, m_indexEnd = 9\<rparr>)"

section \<open>Auxiliary facts\<close>

subsection \<open>State updates\<close>

lemma issue_simps [simp]:
  "glCalls (issue c w) = glCalls w @ [c]"
  "glCallBindings (issue c w) = glCallBindings w @ [bindings (state_buffer w)]"
  "state_buffer (issue c w) = state_buffer w"
  "objects (issue c w) = objects w"
  "current (issue c w) = current w"
  "glReplyInt (issue c w) = glReplyInt w"
  "glReplyPtr (issue c w) = glReplyPtr w"
  by (simp_all add: issue_def)

lemma setBinding_simps [simp]:
  "glCalls (setBinding i v w) = glCalls w"
  "glCallBindings (setBinding i v w) = glCallBindings w"
  "bindings (state_buffer (setBinding i v w)) = (bindings (state_buffer w))[i := v]"
  "objects (setBinding i v w) = objects w"
  "current (setBinding i v w) = current w"
  by (simp_all add: setBinding_def)

lemma setCreated_simps [simp]:
  "glCalls (setCreated b w) = glCalls w"
  "glCallBindings (setCreated b w) = glCallBindings w"
  "state_buffer (setCreated b w) = state_buffer w"
  "m_id (objects (setCreated b w) a) = m_id (objects w a)"
  "m_targetHint (objects (setCreated b w) a) = m_targetHint (objects w a)"
  "current (setCreated b w) = current w"
  by (simp_all add: setCreated_def)

lemma current_fresh [simp]: "current (freshWorld c) = c"
  by (simp add: freshWorld_def)

subsection \<open>Iterating over the binding slots\<close>

lemma unat_inc: "unat (i + 1) = Suc (unat i)" if "i < n" for i n :: size_t
proof -
  have "n \<le> - 1" by simp
  with that have "i \<noteq> - 1" by auto
  then have "1 + i \<noteq> 0" by (simp add: add_eq_0_iff)
  then show ?thesis using unatSuc [of i] by (simp add: add.commute)
qed

lemma loop_step_le: "i \<le> n \<Longrightarrow> i \<noteq> n \<Longrightarrow> i + 1 \<le> n \<and> unat (i + 1) = Suc (unat i) \<and> unat i < unat n" for i n :: size_t
  by (metis inc_le unat_inc word_less_nat_alt order_le_imp_less_or_eq)

lemma bindSomewhere_loop_None:
  "i \<le> n \<Longrightarrow> bindSomewhere_loop n bs idv i = None \<longleftrightarrow> (\<forall>j. unat i \<le> j \<and> j < unat n \<longrightarrow> bs ! j \<noteq> idv)"
proof (induction n bs idv i rule: bindSomewhere_loop.induct)
  case (1 n bs idv i)
  show ?case
  proof (cases "i = n")
    case True
    then show ?thesis by (auto simp add: bindSomewhere_loop.simps [of n bs idv n])
  next
    case False
    note st = loop_step_le [OF "1.prems" False]
    note unf = bindSomewhere_loop.simps [of n bs idv i]
    show ?thesis
    proof (cases "bs ! unat i = idv")
      case True
      with False st show ?thesis by (auto simp add: unf)
    next
      case neq: False
      have IH: "bindSomewhere_loop n bs idv (i + 1) = None \<longleftrightarrow> (\<forall>j. unat (i + 1) \<le> j \<and> j < unat n \<longrightarrow> bs ! j \<noteq> idv)"
        using "1.IH" [OF False neq] st by simp
      have "(\<forall>j. unat i \<le> j \<and> j < unat n \<longrightarrow> bs ! j \<noteq> idv) \<longleftrightarrow> (\<forall>j. Suc (unat i) \<le> j \<and> j < unat n \<longrightarrow> bs ! j \<noteq> idv)"
        using neq by (metis Suc_leI le_neq_implies_less Suc_leD)
      with IH False neq st show ?thesis by (simp add: unf)
    qed
  qed
qed

lemma bindSomewhere_loop_Some:
  "i \<le> n \<Longrightarrow> bindSomewhere_loop n bs idv i = Some k \<Longrightarrow>
     i \<le> k \<and> k < n \<and> bs ! unat k = idv \<and> (\<forall>j. unat i \<le> j \<and> j < unat k \<longrightarrow> bs ! j \<noteq> idv)"
proof (induction n bs idv i rule: bindSomewhere_loop.induct)
  case (1 n bs idv i)
  note unf = bindSomewhere_loop.simps [of n bs idv i]
  from "1.prems" have ne: "i \<noteq> n" by (auto simp add: unf)
  note st = loop_step_le [OF "1.prems"(1) ne]
  have lt: "i < n" using "1.prems"(1) ne by simp
  show ?case
  proof (cases "bs ! unat i = idv")
    case True
    with "1.prems" ne have "k = i" by (simp add: unf)
    with True lt show ?thesis by auto
  next
    case neq: False
    have rec: "bindSomewhere_loop n bs idv (i + 1) = Some k"
      using "1.prems"(2) ne neq by (simp add: unf)
    have IH: "i + 1 \<le> k \<and> k < n \<and> bs ! unat k = idv \<and> (\<forall>j. unat (i + 1) \<le> j \<and> j < unat k \<longrightarrow> bs ! j \<noteq> idv)"
      using "1.IH" [OF ne neq _ rec] st by simp
    have "unat i < unat (i + 1)" using st by simp
    then have "i \<le> k" using IH by (simp add: word_le_nat_alt)
    moreover have "\<forall>j. unat i \<le> j \<and> j < unat k \<longrightarrow> bs ! j \<noteq> idv"
      using IH neq st by (metis Suc_leI le_neq_implies_less)
    ultimately show ?thesis using IH by simp
  qed
qed

lemma destructor_loop_length: "length (destructor_loop n idv i bs) = length bs"
proof (induction n idv i bs rule: destructor_loop.induct)
  case (1 n idv i bs)
  then show ?case by (simp add: destructor_loop.simps [of n idv i bs])
qed


lemma destructor_loop_nth:
  "i \<le> n \<Longrightarrow> unat n \<le> length bs \<Longrightarrow> j < length bs \<Longrightarrow>
   destructor_loop n idv i bs ! j = (if unat i \<le> j \<and> j < unat n \<and> bs ! j = idv then 0 else bs ! j)"
proof (induction n idv i bs rule: destructor_loop.induct)
  case (1 n idv i bs)
  show ?case
  proof (cases "i = n")
    case True
    then show ?thesis by (auto simp add: destructor_loop.simps [of n idv n bs])
  next
    case False
    note st = loop_step_le [OF "1.prems"(1) False]
    define bs' where "bs' = (if bs ! unat i = idv then bs[unat i := 0] else bs)"
    have len: "length bs' = length bs" by (simp add: bs'_def)
    have IH: "destructor_loop n idv (i + 1) bs' ! j =
        (if unat (i + 1) \<le> j \<and> j < unat n \<and> bs' ! j = idv then 0 else bs' ! j)"
      using "1.IH" [OF False] st "1.prems" len unfolding bs'_def by simp
    have unf: "destructor_loop n idv i bs = destructor_loop n idv (i + 1) bs'"
      using False by (simp add: bs'_def destructor_loop.simps [of n idv i bs])
    have at: "unat i < length bs" using st "1.prems"(2) by simp
    show ?thesis
    proof (cases "j = unat i")
      case True
      then show ?thesis using IH st at unfolding unf bs'_def by auto
    next
      case False
      then have "bs' ! j = bs ! j" by (simp add: bs'_def)
      moreover have "unat (i + 1) \<le> j \<longleftrightarrow> unat i \<le> j" using False st by auto
      ultimately show ?thesis using IH unfolding unf by simp
    qed
  qed
qed

lemma all_hints: "t \<in> set allTargetHints"
  by (cases t) (simp_all add: allTargetHints_def)

lemma decl_ok_index: "decl_ok D \<Longrightarrow> indexForTarget D t < TargetCount D"
  using all_hints [of t] by (simp add: decl_ok_def list_all_iff)

lemma decl_ok_slot: "decl_ok D \<Longrightarrow> bindings_ok D w \<Longrightarrow> unat (indexForTarget D t) < length (bindings (state_buffer w))"
  using decl_ok_index [of D t] by (simp add: bindings_ok_def word_less_nat_alt)

lemma decl_ok_table:
  assumes "decl_ok D" "1 \<le> k" "k < TargetCount D"
  shows "indexForTarget D (targetForIndex D ! unat (k - 1)) = k"
proof -
  have k0: "k \<noteq> 0" using assms(2) by auto
  then have u: "unat (k - 1) = unat k - 1" by (rule unat_minus_one)
  have kpos: "0 < unat k" using k0 by (simp add: unat_gt_0)
  have klt: "unat k < unat (TargetCount D)" using assms(3) by (simp add: word_less_nat_alt)
  have len: "length (targetForIndex D) + 1 = unat (TargetCount D)"
    using assms(1) by (simp add: decl_ok_def)
  have inr: "unat k - 1 < length (targetForIndex D)" using kpos klt len by simp
  have m: "map (indexForTarget D) (targetForIndex D) = map of_nat [1 ..< unat (TargetCount D)]"
    using assms(1) by (simp add: decl_ok_def)
  have "indexForTarget D (targetForIndex D ! (unat k - 1)) = map (indexForTarget D) (targetForIndex D) ! (unat k - 1)"
    using inr by simp
  also have "\<dots> = map of_nat [1 ..< unat (TargetCount D)] ! (unat k - 1)"
    by (simp only: m)
  also have "\<dots> = of_nat (1 + (unat k - 1))"
    using inr len by simp
  also have "\<dots> = k" using kpos by simp
  finally show ?thesis by (simp only: u)
qed

section \<open>Properties of buffer binding\<close>

text \<open>
  C1. \<open>Buffer::bindInternal(t, p)\<close>, where the id is that of the buffer \<open>p\<close> points to,
  or 0 when \<open>p\<close> is null: if the cached slot for \<open>t\<close> already holds the id, the
  state is left exactly as it is (no driver call, no cache write); otherwise the id is
  written to the slot for \<open>t\<close> and exactly one call, \<open>glBindBuffer(t, id)\<close>, is
  issued.
\<close>

theorem bindInternal_elides_redundant_bind:
  assumes "unat (indexForTarget D t) < length (bindings (state_buffer w))"
  shows "let idv = (case p of Some b \<Rightarrow> m_id (objects w b) | None \<Rightarrow> 0);
             slot = unat (indexForTarget D t);
             w' = Buffer_bindInternal D t p w
         in (bindings (state_buffer w) ! slot = idv \<longrightarrow> w' = w) \<and>
            (bindings (state_buffer w) ! slot \<noteq> idv \<longrightarrow>
               bindings (state_buffer w') = (bindings (state_buffer w))[slot := idv] \<and>
               bindings (state_buffer w') ! slot = idv \<and>
               glCalls w' = glCalls w @ [glBindBuffer t idv])"
  using assms by (cases p) (simp_all add: Buffer_bindInternal_def Let_def)

theorem bindInternal_elides_redundant_bind_witness:
  "unat (indexForTarget desktopDecl Array) < length (bindings (state_buffer (freshWorld everything))) \<and>
   bindings (state_buffer (Buffer_bindInternal desktopDecl Array (Some 0) (freshWorld everything))) ! 1 = 1 \<and>
   glCalls (Buffer_bindInternal desktopDecl Array (Some 0) (freshWorld everything)) = [glBindBuffer Array 1] \<and>
   Buffer_bindInternal desktopDecl Array None (freshWorld everything) = freshWorld everything"
proof -
  have h: "unat (indexForTarget desktopDecl Array) < length (bindings (state_buffer (freshWorld everything)))"
    by (simp add: desktopDecl_def freshWorld_def freshState_def)
  show ?thesis
    using h bindInternal_elides_redundant_bind [OF h, of "Some 0"]
      bindInternal_elides_redundant_bind [OF h, of None]
    by (simp add: Let_def desktopDecl_def freshWorld_def freshState_def)
qed

text \<open>
  C4. \<open>Buffer::bindSomewhereInternal(t)\<close> on a buffer with id \<open>idv\<close> returns a
  target whose cache slot holds \<open>idv\<close> afterwards. If the slot of the hint \<open>t\<close> already
  holds the id, it returns \<open>t\<close> and changes nothing. Otherwise, if some slot from 1 on
  holds the id, it changes nothing and returns the target of the first such slot.
  Otherwise it writes the id to the slot of \<open>t\<close>, issues exactly one call,
  \<open>glBindBuffer(t, idv)\<close>, and returns \<open>t\<close>.
\<close>

theorem bindSomewhereInternal_returns_bound_target:
  assumes "decl_ok D" and "bindings_ok D w"
  shows "let bs = bindings (state_buffer w);
             idv = m_id (objects w this);
             slot = unat (indexForTarget D t);
             r = fst (Buffer_bindSomewhereInternal D this t w);
             w' = snd (Buffer_bindSomewhereInternal D this t w)
         in bindings (state_buffer w') ! unat (indexForTarget D r) = idv \<and>
            (bs ! slot = idv \<longrightarrow> r = t \<and> w' = w) \<and>
            (bs ! slot \<noteq> idv \<and> (\<exists>i. 1 \<le> i \<and> i < length bs \<and> bs ! i = idv) \<longrightarrow>
               w' = w \<and> 1 \<le> unat (indexForTarget D r) \<and>
               bs ! unat (indexForTarget D r) = idv \<and>
               (\<forall>j. 1 \<le> j \<and> j < unat (indexForTarget D r) \<longrightarrow> bs ! j \<noteq> idv) \<and>
               r = targetForIndex D ! (unat (indexForTarget D r) - 1)) \<and>
            (bs ! slot \<noteq> idv \<and> (\<forall>i. 1 \<le> i \<and> i < length bs \<longrightarrow> bs ! i \<noteq> idv) \<longrightarrow>
               r = t \<and> bindings (state_buffer w') = bs[slot := idv] \<and>
               glCalls w' = glCalls w @ [glBindBuffer t idv])"
proof -
  define bs where "bs = bindings (state_buffer w)"
  define idv where "idv = m_id (objects w this)"
  define slot where "slot = unat (indexForTarget D t)"
  have slot: "slot < length bs"
    using decl_ok_slot [OF assms] by (simp add: slot_def bs_def)
  have len: "length bs = unat (TargetCount D)"
    using assms(2) by (simp add: bindings_ok_def bs_def)
  have one: "(1 :: size_t) \<le> TargetCount D"
    using assms(1) by (simp add: decl_ok_def word_le_nat_alt)
  show ?thesis
  proof (cases "bs ! slot = idv")
    case True
    then show ?thesis
      by (simp add: Buffer_bindSomewhereInternal_def Let_def bs_def idv_def slot_def)
  next
    case neq: False
    show ?thesis
    proof (cases "bindSomewhere_loop (TargetCount D) bs idv 1")
      case None
      then have no: "\<forall>j. 1 \<le> j \<and> j < length bs \<longrightarrow> bs ! j \<noteq> idv"
        using bindSomewhere_loop_None [OF one, of bs idv] len by simp
      have res: "Buffer_bindSomewhereInternal D this t w =
          (t, issue (glBindBuffer t idv) (setCreated this (setBinding slot idv w)))"
        using neq None by (simp add: Buffer_bindSomewhereInternal_def Let_def bs_def idv_def slot_def)
      show ?thesis
        using neq no slot
        by (simp add: res Let_def bs_def [symmetric] idv_def [symmetric] slot_def [symmetric])
    next
      case (Some k)
      note sp = bindSomewhere_loop_Some [OF one Some]
      have res: "Buffer_bindSomewhereInternal D this t w = (targetForIndex D ! unat (k - 1), w)"
        using neq Some by (simp add: Buffer_bindSomewhereInternal_def Let_def bs_def idv_def slot_def)
      have idx: "indexForTarget D (targetForIndex D ! unat (k - 1)) = k"
        using decl_ok_table [OF assms(1)] sp by simp
      have k1: "1 \<le> unat k" using sp by (simp add: word_le_nat_alt)
      have km: "unat (k - 1) = unat k - 1"
        using k1 by (intro unat_minus_one) auto
      have idx': "indexForTarget D (targetForIndex D ! (unat k - Suc 0)) = k"
        using idx km by simp
      have ex: "\<exists>i. 1 \<le> i \<and> i < length bs \<and> bs ! i = idv"
        using sp k1 len by (intro exI [of _ "unat k"]) (simp add: word_less_nat_alt)
      show ?thesis
        using neq sp k1 ex
        by (simp add: res Let_def idx' km bs_def [symmetric] idv_def [symmetric] slot_def [symmetric])
    qed
  qed
qed

theorem bindSomewhereInternal_returns_bound_target_witness:
  "decl_ok desktopDecl \<and> bindings_ok desktopDecl arrayBoundWorld \<and>
   Buffer_bindSomewhereInternal desktopDecl 0 CopyRead arrayBoundWorld = (Array, arrayBoundWorld) \<and>
   bindings (state_buffer (snd (Buffer_bindSomewhereInternal desktopDecl 0 CopyRead arrayBoundWorld))) !
     unat (indexForTarget desktopDecl (fst (Buffer_bindSomewhereInternal desktopDecl 0 CopyRead arrayBoundWorld))) = 1"
proof -
  have h1: "decl_ok desktopDecl"
    by (simp add: decl_ok_def desktopDecl_def allTargetHints_def upt_rec)
  have h2: "bindings_ok desktopDecl arrayBoundWorld"
    by (simp add: bindings_ok_def desktopDecl_def arrayBoundWorld_def freshWorld_def freshState_def)
  have ev: "Buffer_bindSomewhereInternal desktopDecl 0 CopyRead arrayBoundWorld = (Array, arrayBoundWorld)"
    by (simp add: Buffer_bindSomewhereInternal_def Let_def desktopDecl_def arrayBoundWorld_def
        freshWorld_def freshState_def bindSomewhere_loop.simps)
  have idv: "m_id (objects arrayBoundWorld 0) = 1"
    by (simp add: arrayBoundWorld_def freshWorld_def)
  show ?thesis
    using h1 h2 ev bindSomewhereInternal_returns_bound_target [OF h1 h2, of 0 CopyRead]
    by (simp add: Let_def idv)
qed

section \<open>Properties of buffer destruction\<close>

text \<open>
  C8. The destructor of a buffer with a non-zero id and \<open>DeleteOnDestruction\<close> set
  leaves no slot with index from 1 up to \<open>TargetCount\<close> holding the id: every such slot
  that held it is 0, every other slot is as before, and \<open>glDeleteBuffers\<close> is issued
  on the state in which the slots are already reset: the binding cache recorded at the
  moment of that call is the final one, in which no such slot holds the id. With id 0
  or without \<open>DeleteOnDestruction\<close>, the state is left exactly as it is.
\<close>

theorem destructor_clears_bindings:
  assumes "bindings_ok D w" and "1 \<le> TargetCount D"
  shows "let b = objects w this;
             bs = bindings (state_buffer w);
             w' = Buffer_destructor D this w;
             bs' = bindings (state_buffer w')
         in (m_id b \<noteq> 0 \<and> DeleteOnDestruction \<in> m_flags b \<longrightarrow>
               (\<forall>i. 1 \<le> i \<and> i < unat (TargetCount D) \<longrightarrow>
                  bs' ! i \<noteq> m_id b \<and> bs' ! i = (if bs ! i = m_id b then 0 else bs ! i)) \<and>
               length bs' = length bs \<and> bs' ! 0 = bs ! 0 \<and>
               w' = issue (glDeleteBuffers (m_id b)) (w\<lparr>state_buffer := (state_buffer w)\<lparr>bindings := bs'\<rparr>\<rparr>) \<and>
               glCalls w' = glCalls w @ [glDeleteBuffers (m_id b)] \<and>
               glCallBindings w' = glCallBindings w @ [bs'] \<and>
               (\<forall>i. 1 \<le> i \<and> i < unat (TargetCount D) \<longrightarrow>
                  last (glCallBindings w') ! i \<noteq> m_id b)) \<and>
            (m_id b = 0 \<or> DeleteOnDestruction \<notin> m_flags b \<longrightarrow> w' = w)"
proof -
  define b where "b = objects w this"
  define bs where "bs = bindings (state_buffer w)"
  define cl where "cl = destructor_loop (TargetCount D) (m_id b) 1 bs"
  have len: "unat (TargetCount D) \<le> length bs"
    using assms(1) by (simp add: bindings_ok_def bs_def)
  have pos: "0 < length bs"
    using assms by (simp add: bindings_ok_def bs_def word_le_nat_alt)
  have nth: "cl ! j = (if 1 \<le> j \<and> j < unat (TargetCount D) \<and> bs ! j = m_id b then 0 else bs ! j)"
    if "j < length bs" for j
    using destructor_loop_nth [OF assms(2) len that, of "m_id b"] by (simp add: cl_def)
  have cl_len: "length cl = length bs"
    by (simp add: cl_def destructor_loop_length)
  show ?thesis
  proof (cases "m_id b = 0 \<or> DeleteOnDestruction \<notin> m_flags b")
    case True
    then show ?thesis
      by (auto simp add: Buffer_destructor_def Let_def b_def)
  next
    case False
    then have res: "Buffer_destructor D this w =
        issue (glDeleteBuffers (m_id b)) (w\<lparr>state_buffer := (state_buffer w)\<lparr>bindings := cl\<rparr>\<rparr>)"
      by (simp add: Buffer_destructor_def Let_def b_def cl_def bs_def)
    have bs': "bindings (state_buffer (Buffer_destructor D this w)) = cl"
      by (simp add: res)
    have slots: "\<forall>i. 1 \<le> i \<and> i < unat (TargetCount D) \<longrightarrow>
        cl ! i \<noteq> m_id b \<and> cl ! i = (if bs ! i = m_id b then 0 else bs ! i)"
      using False nth len by auto
    have zero: "cl ! 0 = bs ! 0" using nth [OF pos] by simp
    have at_call: "glCallBindings (Buffer_destructor D this w) = glCallBindings w @ [cl]"
      by (simp add: res)
    show ?thesis
      using False slots zero cl_len
      by (simp add: Let_def bs' at_call b_def [symmetric] bs_def [symmetric]) (simp add: res)
  qed
qed

theorem destructor_clears_bindings_witness:
  "bindings_ok desktopDecl arrayBoundWorld \<and> 1 \<le> TargetCount desktopDecl \<and>
   m_id (objects arrayBoundWorld 0) \<noteq> 0 \<and>
   DeleteOnDestruction \<in> m_flags (objects arrayBoundWorld 0) \<and>
   bindings (state_buffer arrayBoundWorld) ! 1 = m_id (objects arrayBoundWorld 0) \<and>
   bindings (state_buffer (Buffer_destructor desktopDecl 0 arrayBoundWorld)) ! 1 = 0 \<and>
   glCalls (Buffer_destructor desktopDecl 0 arrayBoundWorld) = [glDeleteBuffers 1] \<and>
   length (glCallBindings (Buffer_destructor desktopDecl 0 arrayBoundWorld)) = 1 \<and>
   last (glCallBindings (Buffer_destructor desktopDecl 0 arrayBoundWorld)) ! 1 = 0"
proof -
  have h1: "bindings_ok desktopDecl arrayBoundWorld"
    by (simp add: bindings_ok_def desktopDecl_def arrayBoundWorld_def freshWorld_def freshState_def)
  have h2: "1 \<le> TargetCount desktopDecl"
    by (simp add: desktopDecl_def)
  have b: "m_id (objects arrayBoundWorld 0) = 1"
    "DeleteOnDestruction \<in> m_flags (objects arrayBoundWorld 0)"
    "bindings (state_buffer arrayBoundWorld) ! 1 = 1"
    "bindings (state_buffer arrayBoundWorld) ! Suc 0 = 1"
    "glCalls arrayBoundWorld = []"
    "glCallBindings arrayBoundWorld = []"
    "unat (TargetCount desktopDecl) = 14"
    by (simp_all add: arrayBoundWorld_def freshWorld_def freshState_def desktopDecl_def)
  show ?thesis
    using h1 h2 destructor_clears_bindings [OF h1 h2, of 0]
    by (simp add: Let_def b)
qed

section \<open>Properties of the renderer state constructor\<close>

text \<open>
  C2. The constructor assigns both dispatched pointers on every path.
  \<open>graphicsResetStatusImplementation\<close> is the robustness variant exactly when
  \<open>ARB_robustness\<close> (desktop build) or \<open>EXT_robustness\<close> (ES build) is supported,
  and the default variant exactly when it is not. \<open>clearDepthfImplementation\<close> is the
  ES variant exactly when \<open>ARB_ES2_compatibility\<close> is supported in the desktop build,
  and always in the ES build; it is the default variant in the remaining case.
\<close>

theorem RendererState_ctor_selects_by_extension:
  "let r = fst (RendererState_ctor t string_of ctx extensions)
   in (graphicsResetStatusImplementation r = Some graphicsResetStatusImplementationRobustness \<longleftrightarrow>
         isExtensionSupported ctx (case t of Desktop \<Rightarrow> ARB_robustness | GLES \<Rightarrow> EXT_robustness)) \<and>
      (graphicsResetStatusImplementation r = Some graphicsResetStatusImplementationDefault \<longleftrightarrow>
         \<not> isExtensionSupported ctx (case t of Desktop \<Rightarrow> ARB_robustness | GLES \<Rightarrow> EXT_robustness)) \<and>
      (clearDepthfImplementation r = Some clearDepthfImplementationES \<longleftrightarrow>
         (case t of Desktop \<Rightarrow> isExtensionSupported ctx ARB_ES2_compatibility | GLES \<Rightarrow> True)) \<and>
      (clearDepthfImplementation r = Some clearDepthfImplementationDefault \<longleftrightarrow>
         \<not> (case t of Desktop \<Rightarrow> isExtensionSupported ctx ARB_ES2_compatibility | GLES \<Rightarrow> True)) \<and>
      clearDepthfImplementation r \<noteq> None \<and>
      graphicsResetStatusImplementation r \<noteq> None"
  by (cases t) (simp_all add: RendererState_ctor_def Let_def)

theorem RendererState_ctor_selects_by_extension_witness:
  "graphicsResetStatusImplementation (fst (RendererState_ctor Desktop (\<lambda>e. ''GL_x'') everything []))
     = Some graphicsResetStatusImplementationRobustness \<and>
   clearDepthfImplementation (fst (RendererState_ctor Desktop (\<lambda>e. ''GL_x'') nothing []))
     = Some clearDepthfImplementationDefault \<and>
   clearDepthfImplementation (fst (RendererState_ctor GLES (\<lambda>e. ''GL_x'') nothing []))
     = Some clearDepthfImplementationES"
  using RendererState_ctor_selects_by_extension [of Desktop "\<lambda>e. ''GL_x''" everything "[]"]
    RendererState_ctor_selects_by_extension [of Desktop "\<lambda>e. ''GL_x''" nothing "[]"]
    RendererState_ctor_selects_by_extension [of GLES "\<lambda>e. ''GL_x''" nothing "[]"]
  by (simp add: Let_def everything_def nothing_def)

text \<open>
  C6. The two pointers depend on the answers of the extension queries only: two runs of
  the constructor of the same build, on contexts that answer the queries for
  \<open>ARB_ES2_compatibility\<close> and \<open>ARB_robustness\<close> (desktop), or for
  \<open>EXT_robustness\<close> (ES), alike, choose the same implementations, whatever else
  differs between the contexts, the extension lists passed in and the extension strings.
\<close>

theorem RendererState_ctor_deterministic:
  "(isExtensionSupported c1 ARB_ES2_compatibility = isExtensionSupported c2 ARB_ES2_compatibility \<and>
    isExtensionSupported c1 ARB_robustness = isExtensionSupported c2 ARB_robustness \<longrightarrow>
      clearDepthfImplementation (fst (RendererState_ctor Desktop s1 c1 e1)) =
        clearDepthfImplementation (fst (RendererState_ctor Desktop s2 c2 e2)) \<and>
      graphicsResetStatusImplementation (fst (RendererState_ctor Desktop s1 c1 e1)) =
        graphicsResetStatusImplementation (fst (RendererState_ctor Desktop s2 c2 e2))) \<and>
   (isExtensionSupported c1 EXT_robustness = isExtensionSupported c2 EXT_robustness \<longrightarrow>
      clearDepthfImplementation (fst (RendererState_ctor GLES s1 c1 e1)) =
        clearDepthfImplementation (fst (RendererState_ctor GLES s2 c2 e2)) \<and>
      graphicsResetStatusImplementation (fst (RendererState_ctor GLES s1 c1 e1)) =
        graphicsResetStatusImplementation (fst (RendererState_ctor GLES s2 c2 e2)))"
  by (simp add: RendererState_ctor_def Let_def)

theorem RendererState_ctor_deterministic_witness:
  "isExtensionSupported everything ARB_ES2_compatibility =
     isExtensionSupported (everything\<lparr>isVersionSupported := (\<lambda>v. False)\<rparr>) ARB_ES2_compatibility \<and>
   isExtensionSupported everything ARB_robustness =
     isExtensionSupported (everything\<lparr>isVersionSupported := (\<lambda>v. False)\<rparr>) ARB_robustness \<and>
   clearDepthfImplementation (fst (RendererState_ctor Desktop (\<lambda>e. ''a'') everything [])) =
     clearDepthfImplementation (fst (RendererState_ctor Desktop (\<lambda>e. ''b'')
       (everything\<lparr>isVersionSupported := (\<lambda>v. False)\<rparr>) [''c''])) \<and>
   graphicsResetStatusImplementation (fst (RendererState_ctor Desktop (\<lambda>e. ''a'') everything [])) =
     graphicsResetStatusImplementation (fst (RendererState_ctor Desktop (\<lambda>e. ''b'')
       (everything\<lparr>isVersionSupported := (\<lambda>v. False)\<rparr>) [''c'']))"
  using RendererState_ctor_deterministic [of everything "everything\<lparr>isVersionSupported := (\<lambda>v. False)\<rparr>"
      "\<lambda>e. ''a''" "[]" "\<lambda>e. ''b''" "[''c'']"]
  by (simp add: everything_def)

text \<open>
  C7. The list passed in receives, at its end and in this order, the string of
  \<open>ARB_ES2_compatibility\<close> exactly when the build is the desktop one and
  \<open>clearDepthfImplementation\<close> is set to the ES variant, and the string of the
  robustness extension exactly when \<open>graphicsResetStatusImplementation\<close> is set to
  the robustness variant; it receives nothing else.
\<close>

theorem RendererState_ctor_extensions_list:
  "let r = fst (RendererState_ctor t string_of ctx extensions);
       robustness = (case t of Desktop \<Rightarrow> ARB_robustness | GLES \<Rightarrow> EXT_robustness)
   in snd (RendererState_ctor t string_of ctx extensions) =
        extensions
        @ (if t = Desktop \<and> clearDepthfImplementation r = Some clearDepthfImplementationES
           then [string_of ARB_ES2_compatibility] else [])
        @ (if graphicsResetStatusImplementation r = Some graphicsResetStatusImplementationRobustness
           then [string_of robustness] else [])"
  by (cases t) (simp_all add: RendererState_ctor_def Let_def)

theorem RendererState_ctor_extensions_list_witness:
  "snd (RendererState_ctor Desktop (\<lambda>e. if e = ARB_robustness then ''GL_ARB_robustness'' else ''GL_other'')
          (nothing\<lparr>isExtensionSupported := (\<lambda>e. e = ARB_robustness)\<rparr>) [''GL_first''])
     = [''GL_first'', ''GL_ARB_robustness'']"
  using RendererState_ctor_extensions_list [of Desktop
      "\<lambda>e. if e = ARB_robustness then ''GL_ARB_robustness'' else ''GL_other''"
      "nothing\<lparr>isExtensionSupported := (\<lambda>e. e = ARB_robustness)\<rparr>" "[''GL_first'']"]
  by (simp add: Let_def nothing_def RendererState_ctor_def)

section \<open>Properties of the cached limit queries\<close>

text \<open>
  C3. A limit query whose prerequisite is not supported returns its constant and leaves
  the state, and with it the list of driver calls, exactly as it is: no
  \<open>glGetIntegerv\<close> is issued. The prerequisite is an extension in the desktop build
  and version ES 3.1 in the ES build; \<open>maxUniformBindings\<close> and
  \<open>uniformOffsetAlignment\<close> have a prerequisite in the desktop build only, and
  \<open>minMapAlignment\<close> exists in the desktop build only. The constant is 0 for
  \<open>maxAtomicCounterBindings\<close>, \<open>maxShaderStorageBindings\<close> and
  \<open>maxUniformBindings\<close>, and 1 for \<open>minMapAlignment\<close>,
  \<open>uniformOffsetAlignment\<close> and \<open>shaderStorageOffsetAlignment\<close>.
\<close>

theorem limit_queries_fall_back_without_driver_call:
  "(\<not> isExtensionSupported (current w) ARB_map_buffer_alignment \<longrightarrow>
      Buffer_minMapAlignment w = (1, w)) \<and>
   (\<not> isExtensionSupported (current w) ARB_shader_atomic_counters \<longrightarrow>
      Buffer_maxAtomicCounterBindings Desktop w = (0, w)) \<and>
   (\<not> isVersionSupported (current w) GLES310 \<longrightarrow>
      Buffer_maxAtomicCounterBindings GLES w = (0, w)) \<and>
   (\<not> isExtensionSupported (current w) ARB_shader_storage_buffer_object \<longrightarrow>
      Buffer_maxShaderStorageBindings Desktop w = (0, w)) \<and>
   (\<not> isVersionSupported (current w) GLES310 \<longrightarrow>
      Buffer_maxShaderStorageBindings GLES w = (0, w)) \<and>
   (\<not> isExtensionSupported (current w) ARB_uniform_buffer_object \<longrightarrow>
      Buffer_maxUniformBindings Desktop w = (0, w)) \<and>
   (\<not> isExtensionSupported (current w) ARB_uniform_buffer_object \<longrightarrow>
      Buffer_uniformOffsetAlignment Desktop w = (1, w)) \<and>
   (\<not> isExtensionSupported (current w) ARB_shader_storage_buffer_object \<longrightarrow>
      Buffer_shaderStorageOffsetAlignment Desktop w = (1, w)) \<and>
   (\<not> isVersionSupported (current w) GLES310 \<longrightarrow>
      Buffer_shaderStorageOffsetAlignment GLES w = (1, w))"
  by (simp add: Buffer_minMapAlignment_def Buffer_maxAtomicCounterBindings_def
      Buffer_maxShaderStorageBindings_def Buffer_maxUniformBindings_def
      Buffer_uniformOffsetAlignment_def Buffer_shaderStorageOffsetAlignment_def)

theorem limit_queries_fall_back_without_driver_call_witness:
  "\<not> isExtensionSupported (current (freshWorld nothing)) ARB_map_buffer_alignment \<and>
   \<not> isExtensionSupported (current (freshWorld nothing)) ARB_shader_atomic_counters \<and>
   \<not> isVersionSupported (current (freshWorld nothing)) GLES310 \<and>
   \<not> isExtensionSupported (current (freshWorld nothing)) ARB_shader_storage_buffer_object \<and>
   \<not> isExtensionSupported (current (freshWorld nothing)) ARB_uniform_buffer_object \<and>
   Buffer_minMapAlignment (freshWorld nothing) = (1, freshWorld nothing) \<and>
   Buffer_maxAtomicCounterBindings Desktop (freshWorld nothing) = (0, freshWorld nothing) \<and>
   Buffer_maxShaderStorageBindings GLES (freshWorld nothing) = (0, freshWorld nothing) \<and>
   Buffer_maxUniformBindings Desktop (freshWorld nothing) = (0, freshWorld nothing) \<and>
   Buffer_uniformOffsetAlignment Desktop (freshWorld nothing) = (1, freshWorld nothing) \<and>
   Buffer_shaderStorageOffsetAlignment GLES (freshWorld nothing) = (1, freshWorld nothing) \<and>
   glCalls (snd (Buffer_minMapAlignment (freshWorld nothing))) = []"
proof -
  have h: "\<not> isExtensionSupported (current (freshWorld nothing)) e"
    "\<not> isVersionSupported (current (freshWorld nothing)) v" for e v
    by (simp_all add: nothing_def)
  have t: "glCalls (freshWorld nothing) = []"
    by (simp add: freshWorld_def)
  show ?thesis
    using limit_queries_fall_back_without_driver_call [of "freshWorld nothing"] h t
    by simp
qed

text \<open>
  Each query, when its prerequisite is met: with a non-zero cached value it returns that
  value and leaves the state as it is; with the cached value 0 it issues one
  \<open>glGetIntegerv\<close>, stores the answer and returns it. Whenever it returns a non-zero
  value, calling it again on the resulting state returns the same value and changes
  nothing.
\<close>

lemma minMapAlignment_memo:
  "(isExtensionSupported (current w) ARB_map_buffer_alignment \<longrightarrow>
      (minMapAlignment (state_buffer w) \<noteq> 0 \<longrightarrow> Buffer_minMapAlignment w = (minMapAlignment (state_buffer w), w)) \<and>
      (minMapAlignment (state_buffer w) = 0 \<longrightarrow>
         glCalls (snd (Buffer_minMapAlignment w)) = glCalls w @ [glGetIntegerv GL_MIN_MAP_BUFFER_ALIGNMENT] \<and>
         fst (Buffer_minMapAlignment w) = glReplyInt w (glCalls w @ [glGetIntegerv GL_MIN_MAP_BUFFER_ALIGNMENT]) \<and>
         minMapAlignment (state_buffer (snd (Buffer_minMapAlignment w))) = fst (Buffer_minMapAlignment w))) \<and>
   (fst (Buffer_minMapAlignment w) \<noteq> 0 \<longrightarrow>
      Buffer_minMapAlignment (snd (Buffer_minMapAlignment w)) = (fst (Buffer_minMapAlignment w), snd (Buffer_minMapAlignment w)))"
  by (simp add: Buffer_minMapAlignment_def call_glGetIntegerv_def Let_def)

lemma maxAtomicCounterBindings_memo:
  "((case t of Desktop \<Rightarrow> isExtensionSupported (current w) ARB_shader_atomic_counters | GLES \<Rightarrow> isVersionSupported (current w) GLES310) \<longrightarrow>
      (maxAtomicCounterBindings (state_buffer w) \<noteq> 0 \<longrightarrow> Buffer_maxAtomicCounterBindings t w = (maxAtomicCounterBindings (state_buffer w), w)) \<and>
      (maxAtomicCounterBindings (state_buffer w) = 0 \<longrightarrow>
         glCalls (snd (Buffer_maxAtomicCounterBindings t w)) = glCalls w @ [glGetIntegerv GL_MAX_ATOMIC_COUNTER_BUFFER_BINDINGS] \<and>
         fst (Buffer_maxAtomicCounterBindings t w) = glReplyInt w (glCalls w @ [glGetIntegerv GL_MAX_ATOMIC_COUNTER_BUFFER_BINDINGS]) \<and>
         maxAtomicCounterBindings (state_buffer (snd (Buffer_maxAtomicCounterBindings t w))) = fst (Buffer_maxAtomicCounterBindings t w))) \<and>
   (fst (Buffer_maxAtomicCounterBindings t w) \<noteq> 0 \<longrightarrow>
      Buffer_maxAtomicCounterBindings t (snd (Buffer_maxAtomicCounterBindings t w)) = (fst (Buffer_maxAtomicCounterBindings t w), snd (Buffer_maxAtomicCounterBindings t w)))"
  by (cases t) (simp_all add: Buffer_maxAtomicCounterBindings_def call_glGetIntegerv_def Let_def)

lemma maxShaderStorageBindings_memo:
  "((case t of Desktop \<Rightarrow> isExtensionSupported (current w) ARB_shader_storage_buffer_object | GLES \<Rightarrow> isVersionSupported (current w) GLES310) \<longrightarrow>
      (maxShaderStorageBindings (state_buffer w) \<noteq> 0 \<longrightarrow> Buffer_maxShaderStorageBindings t w = (maxShaderStorageBindings (state_buffer w), w)) \<and>
      (maxShaderStorageBindings (state_buffer w) = 0 \<longrightarrow>
         glCalls (snd (Buffer_maxShaderStorageBindings t w)) = glCalls w @ [glGetIntegerv GL_MAX_SHADER_STORAGE_BUFFER_BINDINGS] \<and>
         fst (Buffer_maxShaderStorageBindings t w) = glReplyInt w (glCalls w @ [glGetIntegerv GL_MAX_SHADER_STORAGE_BUFFER_BINDINGS]) \<and>
         maxShaderStorageBindings (state_buffer (snd (Buffer_maxShaderStorageBindings t w))) = fst (Buffer_maxShaderStorageBindings t w))) \<and>
   (fst (Buffer_maxShaderStorageBindings t w) \<noteq> 0 \<longrightarrow>
      Buffer_maxShaderStorageBindings t (snd (Buffer_maxShaderStorageBindings t w)) = (fst (Buffer_maxShaderStorageBindings t w), snd (Buffer_maxShaderStorageBindings t w)))"
  by (cases t) (simp_all add: Buffer_maxShaderStorageBindings_def call_glGetIntegerv_def Let_def)

lemma uniformOffsetAlignment_memo:
  "((case t of Desktop \<Rightarrow> isExtensionSupported (current w) ARB_uniform_buffer_object | GLES \<Rightarrow> True) \<longrightarrow>
      (uniformOffsetAlignment (state_buffer w) \<noteq> 0 \<longrightarrow> Buffer_uniformOffsetAlignment t w = (uniformOffsetAlignment (state_buffer w), w)) \<and>
      (uniformOffsetAlignment (state_buffer w) = 0 \<longrightarrow>
         glCalls (snd (Buffer_uniformOffsetAlignment t w)) = glCalls w @ [glGetIntegerv GL_UNIFORM_BUFFER_OFFSET_ALIGNMENT] \<and>
         fst (Buffer_uniformOffsetAlignment t w) = glReplyInt w (glCalls w @ [glGetIntegerv GL_UNIFORM_BUFFER_OFFSET_ALIGNMENT]) \<and>
         uniformOffsetAlignment (state_buffer (snd (Buffer_uniformOffsetAlignment t w))) = fst (Buffer_uniformOffsetAlignment t w))) \<and>
   (fst (Buffer_uniformOffsetAlignment t w) \<noteq> 0 \<longrightarrow>
      Buffer_uniformOffsetAlignment t (snd (Buffer_uniformOffsetAlignment t w)) = (fst (Buffer_uniformOffsetAlignment t w), snd (Buffer_uniformOffsetAlignment t w)))"
  by (cases t) (simp_all add: Buffer_uniformOffsetAlignment_def call_glGetIntegerv_def Let_def)

lemma shaderStorageOffsetAlignment_memo:
  "((case t of Desktop \<Rightarrow> isExtensionSupported (current w) ARB_shader_storage_buffer_object | GLES \<Rightarrow> isVersionSupported (current w) GLES310) \<longrightarrow>
      (shaderStorageOffsetAlignment (state_buffer w) \<noteq> 0 \<longrightarrow> Buffer_shaderStorageOffsetAlignment t w = (shaderStorageOffsetAlignment (state_buffer w), w)) \<and>
      (shaderStorageOffsetAlignment (state_buffer w) = 0 \<longrightarrow>
         glCalls (snd (Buffer_shaderStorageOffsetAlignment t w)) = glCalls w @ [glGetIntegerv GL_SHADER_STORAGE_BUFFER_OFFSET_ALIGNMENT] \<and>
         fst (Buffer_shaderStorageOffsetAlignment t w) = glReplyInt w (glCalls w @ [glGetIntegerv GL_SHADER_STORAGE_BUFFER_OFFSET_ALIGNMENT]) \<and>
         shaderStorageOffsetAlignment (state_buffer (snd (Buffer_shaderStorageOffsetAlignment t w))) = fst (Buffer_shaderStorageOffsetAlignment t w))) \<and>
   (fst (Buffer_shaderStorageOffsetAlignment t w) \<noteq> 0 \<longrightarrow>
      Buffer_shaderStorageOffsetAlignment t (snd (Buffer_shaderStorageOffsetAlignment t w)) = (fst (Buffer_shaderStorageOffsetAlignment t w), snd (Buffer_shaderStorageOffsetAlignment t w)))"
  by (cases t) (simp_all add: Buffer_shaderStorageOffsetAlignment_def call_glGetIntegerv_def Let_def)

lemma maxUniformBindings_memo:
  "((case t of Desktop \<Rightarrow> isExtensionSupported (current w) ARB_uniform_buffer_object | GLES \<Rightarrow> True) \<longrightarrow>
      (maxUniformBindings (state_buffer w) \<noteq> 0 \<longrightarrow> Buffer_maxUniformBindings t w = (maxUniformBindings (state_buffer w), w)) \<and>
      (maxUniformBindings (state_buffer w) = 0 \<longrightarrow>
         glCalls (snd (Buffer_maxUniformBindings t w)) = glCalls w @ [glGetIntegerv GL_MAX_UNIFORM_BUFFER_BINDINGS] \<and>
         fst (Buffer_maxUniformBindings t w) = glReplyInt w (glCalls w @ [glGetIntegerv GL_MAX_UNIFORM_BUFFER_BINDINGS]) \<and>
         maxUniformBindings (state_buffer (snd (Buffer_maxUniformBindings t w))) = fst (Buffer_maxUniformBindings t w))) \<and>
   (fst (Buffer_maxUniformBindings t w) \<noteq> 0 \<longrightarrow>
      Buffer_maxUniformBindings t (snd (Buffer_maxUniformBindings t w)) = (fst (Buffer_maxUniformBindings t w), snd (Buffer_maxUniformBindings t w)))"
  by (cases t) (simp_all add: Buffer_maxUniformBindings_def call_glGetIntegerv_def Let_def)

text \<open>
  C9. The six limit queries are memoized in the context state, with 0 meaning "not
  cached". For each query whose prerequisite is met: in every state in which its cached
  value is non-zero, the call returns that value and leaves the state, and with it the
  list of driver calls, as it is; in a state in which its cached value is 0, the call
  issues exactly one \<open>glGetIntegerv\<close>, and returns and caches the driver's answer
  (so an answer of 0 leaves the cached value at 0, and the next call asks again). And
  whenever a call returns a non-zero value, the next call on the resulting state returns
  the same value without a driver call.
\<close>

theorem limit_queries_memoized:
  "(isExtensionSupported (current w) ARB_map_buffer_alignment \<longrightarrow>
      (minMapAlignment (state_buffer w) \<noteq> 0 \<longrightarrow> Buffer_minMapAlignment w = (minMapAlignment (state_buffer w), w)) \<and>
      (minMapAlignment (state_buffer w) = 0 \<longrightarrow>
         glCalls (snd (Buffer_minMapAlignment w)) = glCalls w @ [glGetIntegerv GL_MIN_MAP_BUFFER_ALIGNMENT] \<and>
         fst (Buffer_minMapAlignment w) = glReplyInt w (glCalls w @ [glGetIntegerv GL_MIN_MAP_BUFFER_ALIGNMENT]) \<and>
         minMapAlignment (state_buffer (snd (Buffer_minMapAlignment w))) = fst (Buffer_minMapAlignment w))) \<and>
   (fst (Buffer_minMapAlignment w) \<noteq> 0 \<longrightarrow>
      Buffer_minMapAlignment (snd (Buffer_minMapAlignment w)) = (fst (Buffer_minMapAlignment w), snd (Buffer_minMapAlignment w))) \<and>
   ((case t of Desktop \<Rightarrow> isExtensionSupported (current w) ARB_shader_atomic_counters | GLES \<Rightarrow> isVersionSupported (current w) GLES310) \<longrightarrow>
      (maxAtomicCounterBindings (state_buffer w) \<noteq> 0 \<longrightarrow> Buffer_maxAtomicCounterBindings t w = (maxAtomicCounterBindings (state_buffer w), w)) \<and>
      (maxAtomicCounterBindings (state_buffer w) = 0 \<longrightarrow>
         glCalls (snd (Buffer_maxAtomicCounterBindings t w)) = glCalls w @ [glGetIntegerv GL_MAX_ATOMIC_COUNTER_BUFFER_BINDINGS] \<and>
         fst (Buffer_maxAtomicCounterBindings t w) = glReplyInt w (glCalls w @ [glGetIntegerv GL_MAX_ATOMIC_COUNTER_BUFFER_BINDINGS]) \<and>
         maxAtomicCounterBindings (state_buffer (snd (Buffer_maxAtomicCounterBindings t w))) = fst (Buffer_maxAtomicCounterBindings t w))) \<and>
   (fst (Buffer_maxAtomicCounterBindings t w) \<noteq> 0 \<longrightarrow>
      Buffer_maxAtomicCounterBindings t (snd (Buffer_maxAtomicCounterBindings t w)) = (fst (Buffer_maxAtomicCounterBindings t w), snd (Buffer_maxAtomicCounterBindings t w))) \<and>
   ((case t of Desktop \<Rightarrow> isExtensionSupported (current w) ARB_shader_storage_buffer_object | GLES \<Rightarrow> isVersionSupported (current w) GLES310) \<longrightarrow>
      (maxShaderStorageBindings (state_buffer w) \<noteq> 0 \<longrightarrow> Buffer_maxShaderStorageBindings t w = (maxShaderStorageBindings (state_buffer w), w)) \<and>
      (maxShaderStorageBindings (state_buffer w) = 0 \<longrightarrow>
         glCalls (snd (Buffer_maxShaderStorageBindings t w)) = glCalls w @ [glGetIntegerv GL_MAX_SHADER_STORAGE_BUFFER_BINDINGS] \<and>
         fst (Buffer_maxShaderStorageBindings t w) = glReplyInt w (glCalls w @ [glGetIntegerv GL_MAX_SHADER_STORAGE_BUFFER_BINDINGS]) \<and>
         maxShaderStorageBindings (state_buffer (snd (Buffer_maxShaderStorageBindings t w))) = fst (Buffer_maxShaderStorageBindings t w))) \<and>
   (fst (Buffer_maxShaderStorageBindings t w) \<noteq> 0 \<longrightarrow>
      Buffer_maxShaderStorageBindings t (snd (Buffer_maxShaderStorageBindings t w)) = (fst (Buffer_maxShaderStorageBindings t w), snd (Buffer_maxShaderStorageBindings t w))) \<and>
   ((case t of Desktop \<Rightarrow> isExtensionSupported (current w) ARB_uniform_buffer_object | GLES \<Rightarrow> True) \<longrightarrow>
      (uniformOffsetAlignment (state_buffer w) \<noteq> 0 \<longrightarrow> Buffer_uniformOffsetAlignment t w = (uniformOffsetAlignment (state_buffer w), w)) \<and>
      (uniformOffsetAlignment (state_buffer w) = 0 \<longrightarrow>
         glCalls (snd (Buffer_uniformOffsetAlignment t w)) = glCalls w @ [glGetIntegerv GL_UNIFORM_BUFFER_OFFSET_ALIGNMENT] \<and>
         fst (Buffer_uniformOffsetAlignment t w) = glReplyInt w (glCalls w @ [glGetIntegerv GL_UNIFORM_BUFFER_OFFSET_ALIGNMENT]) \<and>
         uniformOffsetAlignment (state_buffer (snd (Buffer_uniformOffsetAlignment t w))) = fst (Buffer_uniformOffsetAlignment t w))) \<and>
   (fst (Buffer_uniformOffsetAlignment t w) \<noteq> 0 \<longrightarrow>
      Buffer_uniformOffsetAlignment t (snd (Buffer_uniformOffsetAlignment t w)) = (fst (Buffer_uniformOffsetAlignment t w), snd (Buffer_uniformOffsetAlignment t w))) \<and>
   ((case t of Desktop \<Rightarrow> isExtensionSupported (current w) ARB_shader_storage_buffer_object | GLES \<Rightarrow> isVersionSupported (current w) GLES310) \<longrightarrow>
      (shaderStorageOffsetAlignment (state_buffer w) \<noteq> 0 \<longrightarrow> Buffer_shaderStorageOffsetAlignment t w = (shaderStorageOffsetAlignment (state_buffer w), w)) \<and>
      (shaderStorageOffsetAlignment (state_buffer w) = 0 \<longrightarrow>
         glCalls (snd (Buffer_shaderStorageOffsetAlignment t w)) = glCalls w @ [glGetIntegerv GL_SHADER_STORAGE_BUFFER_OFFSET_ALIGNMENT] \<and>
         fst (Buffer_shaderStorageOffsetAlignment t w) = glReplyInt w (glCalls w @ [glGetIntegerv GL_SHADER_STORAGE_BUFFER_OFFSET_ALIGNMENT]) \<and>
         shaderStorageOffsetAlignment (state_buffer (snd (Buffer_shaderStorageOffsetAlignment t w))) = fst (Buffer_shaderStorageOffsetAlignment t w))) \<and>
   (fst (Buffer_shaderStorageOffsetAlignment t w) \<noteq> 0 \<longrightarrow>
      Buffer_shaderStorageOffsetAlignment t (snd (Buffer_shaderStorageOffsetAlignment t w)) = (fst (Buffer_shaderStorageOffsetAlignment t w), snd (Buffer_shaderStorageOffsetAlignment t w))) \<and>
   ((case t of Desktop \<Rightarrow> isExtensionSupported (current w) ARB_uniform_buffer_object | GLES \<Rightarrow> True) \<longrightarrow>
      (maxUniformBindings (state_buffer w) \<noteq> 0 \<longrightarrow> Buffer_maxUniformBindings t w = (maxUniformBindings (state_buffer w), w)) \<and>
      (maxUniformBindings (state_buffer w) = 0 \<longrightarrow>
         glCalls (snd (Buffer_maxUniformBindings t w)) = glCalls w @ [glGetIntegerv GL_MAX_UNIFORM_BUFFER_BINDINGS] \<and>
         fst (Buffer_maxUniformBindings t w) = glReplyInt w (glCalls w @ [glGetIntegerv GL_MAX_UNIFORM_BUFFER_BINDINGS]) \<and>
         maxUniformBindings (state_buffer (snd (Buffer_maxUniformBindings t w))) = fst (Buffer_maxUniformBindings t w))) \<and>
   (fst (Buffer_maxUniformBindings t w) \<noteq> 0 \<longrightarrow>
      Buffer_maxUniformBindings t (snd (Buffer_maxUniformBindings t w)) = (fst (Buffer_maxUniformBindings t w), snd (Buffer_maxUniformBindings t w)))"
  by (intro conjI)
    (rule minMapAlignment_memo [THEN conjunct1],
     rule minMapAlignment_memo [THEN conjunct2],
     rule maxAtomicCounterBindings_memo [THEN conjunct1],
     rule maxAtomicCounterBindings_memo [THEN conjunct2],
     rule maxShaderStorageBindings_memo [THEN conjunct1],
     rule maxShaderStorageBindings_memo [THEN conjunct2],
     rule uniformOffsetAlignment_memo [THEN conjunct1],
     rule uniformOffsetAlignment_memo [THEN conjunct2],
     rule shaderStorageOffsetAlignment_memo [THEN conjunct1],
     rule shaderStorageOffsetAlignment_memo [THEN conjunct2],
     rule maxUniformBindings_memo [THEN conjunct1],
     rule maxUniformBindings_memo [THEN conjunct2])

theorem limit_queries_memoized_witness:
  "isExtensionSupported (current (freshWorld everything)) ARB_map_buffer_alignment \<and>
   minMapAlignment (state_buffer (freshWorld everything)) = 0 \<and>
   fst (Buffer_minMapAlignment (freshWorld everything)) = 16 \<and>
   glCalls (snd (Buffer_minMapAlignment (freshWorld everything))) = [glGetIntegerv GL_MIN_MAP_BUFFER_ALIGNMENT] \<and>
   Buffer_minMapAlignment (snd (Buffer_minMapAlignment (freshWorld everything))) =
     (16, snd (Buffer_minMapAlignment (freshWorld everything)))"
proof -
  have h: "isExtensionSupported (current (freshWorld everything)) ARB_map_buffer_alignment"
    "minMapAlignment (state_buffer (freshWorld everything)) = 0"
    "glCalls (freshWorld everything) = []"
    "glReplyInt (freshWorld everything) cs = 16" for cs
    by (simp_all add: everything_def freshWorld_def freshState_def)
  note m = limit_queries_memoized [of "freshWorld everything" Desktop]
  have miss: "glCalls (snd (Buffer_minMapAlignment (freshWorld everything))) =
        [glGetIntegerv GL_MIN_MAP_BUFFER_ALIGNMENT] \<and>
      fst (Buffer_minMapAlignment (freshWorld everything)) = 16"
    using m [THEN conjunct1] h by simp
  then have "fst (Buffer_minMapAlignment (freshWorld everything)) \<noteq> 0"
    by simp
  with m [THEN conjunct2, THEN conjunct1]
  have "Buffer_minMapAlignment (snd (Buffer_minMapAlignment (freshWorld everything))) =
      (fst (Buffer_minMapAlignment (freshWorld everything)),
       snd (Buffer_minMapAlignment (freshWorld everything)))"
    by (rule mp)
  with miss h show ?thesis
    by simp
qed

section \<open>Properties of mesh views\<close>

text \<open>
  C10. A newly constructed view has count 0, base vertex 0, instance count 1, base
  instance 0, index offset 0, index start 0 and index end 0. Each of \<open>setCount\<close>,
  \<open>setBaseVertex\<close>, \<open>setInstanceCount\<close> and \<open>setBaseInstance\<close> returns a
  reference to the object it was called on, writes its own member of that object and
  leaves every other member, and every other view, as it is. And
  \<open>setIndexRange(first, start, end)\<close> returns the same object, in the state that
  \<open>setIndexRange(first)\<close> leaves with index start and index end of the object set to
  the values given.
\<close>

theorem MeshView_defaults_and_setters:
  "(let v = MeshView_ctor this original h this
    in m_count v = 0 \<and> m_baseVertex v = 0 \<and> m_instanceCount v = 1 \<and> m_baseInstance v = 0 \<and>
       m_indexOffset v = 0 \<and> m_indexStart v = 0 \<and> m_indexEnd v = 0 \<and> m_original v = original) \<and>
   MeshView_setCount this c h = (this, h(this := (h this)\<lparr>m_count := c\<rparr>)) \<and>
   MeshView_setBaseVertex this c h = (this, h(this := (h this)\<lparr>m_baseVertex := c\<rparr>)) \<and>
   MeshView_setInstanceCount this c h = (this, h(this := (h this)\<lparr>m_instanceCount := c\<rparr>)) \<and>
   MeshView_setBaseInstance this u h = (this, h(this := (h this)\<lparr>m_baseInstance := u\<rparr>)) \<and>
   (let v = h this; v' = snd (MeshView_setCount this c h) this
    in m_count v' = c \<and> m_original v' = m_original v \<and> m_baseVertex v' = m_baseVertex v \<and>
       m_instanceCount v' = m_instanceCount v \<and> m_baseInstance v' = m_baseInstance v \<and>
       m_indexOffset v' = m_indexOffset v \<and> m_indexStart v' = m_indexStart v \<and>
       m_indexEnd v' = m_indexEnd v) \<and>
   (let v = h this; v' = snd (MeshView_setBaseVertex this c h) this
    in m_baseVertex v' = c \<and> m_original v' = m_original v \<and> m_count v' = m_count v \<and>
       m_instanceCount v' = m_instanceCount v \<and> m_baseInstance v' = m_baseInstance v \<and>
       m_indexOffset v' = m_indexOffset v \<and> m_indexStart v' = m_indexStart v \<and>
       m_indexEnd v' = m_indexEnd v) \<and>
   (let v = h this; v' = snd (MeshView_setInstanceCount this c h) this
    in m_instanceCount v' = c \<and> m_original v' = m_original v \<and> m_count v' = m_count v \<and>
       m_baseVertex v' = m_baseVertex v \<and> m_baseInstance v' = m_baseInstance v \<and>
       m_indexOffset v' = m_indexOffset v \<and> m_indexStart v' = m_indexStart v \<and>
       m_indexEnd v' = m_indexEnd v) \<and>
   (let v = h this; v' = snd (MeshView_setBaseInstance this u h) this
    in m_baseInstance v' = u \<and> m_original v' = m_original v \<and> m_count v' = m_count v \<and>
       m_baseVertex v' = m_baseVertex v \<and> m_instanceCount v' = m_instanceCount v \<and>
       m_indexOffset v' = m_indexOffset v \<and> m_indexStart v' = m_indexStart v \<and>
       m_indexEnd v' = m_indexEnd v) \<and>
   (let h1 = snd (setIndexRange1 this first h)
    in MeshView_setIndexRange setIndexRange1 this first start end' h =
         (this, h1(this := (h1 this)\<lparr>m_indexStart := start, m_indexEnd := end'\<rparr>)))"
  by (simp add: MeshView_ctor_def MeshView_setCount_def MeshView_setBaseVertex_def
      MeshView_setInstanceCount_def MeshView_setBaseInstance_def MeshView_setIndexRange_def Let_def)

theorem MeshView_defaults_and_setters_witness:
  "m_instanceCount (MeshView_ctor 0 7 ninesViews 0) = 1 \<and>
   m_count (MeshView_ctor 0 7 ninesViews 0) = 0 \<and>
   fst (MeshView_setCount 0 3 ninesViews) = 0 \<and>
   m_count (snd (MeshView_setCount 0 3 ninesViews) 0) = 3 \<and>
   m_instanceCount (snd (MeshView_setCount 0 3 ninesViews) 0) = 9 \<and>
   m_indexEnd (snd (MeshView_setIndexRange (\<lambda>this first h. (this, h(this := (h this)\<lparr>m_indexOffset := 4\<rparr>)))
       0 1 2 5 ninesViews) 0) = 5 \<and>
   m_indexOffset (snd (MeshView_setIndexRange (\<lambda>this first h. (this, h(this := (h this)\<lparr>m_indexOffset := 4\<rparr>)))
       0 1 2 5 ninesViews) 0) = 4"
  using MeshView_defaults_and_setters [of 0 7 ninesViews 3 4
      "\<lambda>this first h. (this, h(this := (h this)\<lparr>m_indexOffset := 4\<rparr>))" 1 2 5]
  by (simp add: Let_def ninesViews_def)

section \<open>Properties of the implementations of the buffer operations\<close>

text \<open>
  What \<open>bindSomewhereInternal\<close> leaves alone: every slot but that of its hint, and the
  id and the target hint of every buffer. The \<open>DSA\<close> variants issue one call and leave
  the tracked buffer state alone; the \<open>Default\<close> variants are a call of
  \<open>bindSomewhereInternal\<close> followed by one driver call on the target it returned.
\<close>

lemma bindSomewhereInternal_frame:
  "length (bindings (state_buffer (snd (Buffer_bindSomewhereInternal D this t w)))) =
     length (bindings (state_buffer w))"
  "j \<noteq> unat (indexForTarget D t) \<Longrightarrow>
     bindings (state_buffer (snd (Buffer_bindSomewhereInternal D this t w))) ! j =
       bindings (state_buffer w) ! j"
  "m_id (objects (snd (Buffer_bindSomewhereInternal D this t w)) a) = m_id (objects w a)"
  "m_targetHint (objects (snd (Buffer_bindSomewhereInternal D this t w)) a) = m_targetHint (objects w a)"
  by (simp_all add: Buffer_bindSomewhereInternal_def Let_def split: option.splits)

lemma split_snd: "(case p of (a, b) \<Rightarrow> f a b) = f (fst p) (snd p)"
  by (cases p) simp

lemma DSA_frame:
  "state_buffer (Buffer_dataImplementationDSA this sz d u w) = state_buffer w"
  "glCalls (Buffer_dataImplementationDSA this sz d u w) =
     glCalls w @ [glNamedBufferData (m_id (objects w this)) sz d u]"
  "state_buffer (Buffer_subDataImplementationDSA this off sz d w) = state_buffer w"
  "glCalls (Buffer_subDataImplementationDSA this off sz d w) =
     glCalls w @ [glNamedBufferSubData (m_id (objects w this)) off sz d]"
  "state_buffer (Buffer_copyImplementationDSA rd wr ro wo sz w) = state_buffer w"
  "glCalls (Buffer_copyImplementationDSA rd wr ro wo sz w) =
     glCalls w @ [glCopyNamedBufferSubData (m_id (objects w rd)) (m_id (objects w wr)) ro wo sz]"
  "state_buffer (snd (Buffer_mapImplementationDSA this acc w)) = state_buffer w"
  "glCalls (snd (Buffer_mapImplementationDSA this acc w)) =
     glCalls w @ [glMapNamedBuffer (m_id (objects w this)) acc]"
  "state_buffer (snd (Buffer_getParameterImplementationDSA this v w)) = state_buffer w"
  "glCalls (snd (Buffer_getParameterImplementationDSA this v w)) =
     glCalls w @ [glGetNamedBufferParameteriv (m_id (objects w this)) v]"
  by (simp_all add: Buffer_dataImplementationDSA_def Buffer_subDataImplementationDSA_def
      Buffer_copyImplementationDSA_def Buffer_mapImplementationDSA_def
      Buffer_getParameterImplementationDSA_def Let_def)

lemma Default_binds_first:
  "Buffer_dataImplementationDefault D this sz d u w =
     issue (glBufferData (fst (Buffer_bindSomewhereInternal D this (m_targetHint (objects w this)) w)) sz d u)
       (snd (Buffer_bindSomewhereInternal D this (m_targetHint (objects w this)) w))"
  "Buffer_subDataImplementationDefault D this off sz d w =
     issue (glBufferSubData (fst (Buffer_bindSomewhereInternal D this (m_targetHint (objects w this)) w)) off sz d)
       (snd (Buffer_bindSomewhereInternal D this (m_targetHint (objects w this)) w))"
  "snd (Buffer_mapImplementationDefault D this acc w) =
     issue (glMapBuffer (fst (Buffer_bindSomewhereInternal D this (m_targetHint (objects w this)) w)) acc)
       (snd (Buffer_bindSomewhereInternal D this (m_targetHint (objects w this)) w))"
  "snd (Buffer_getParameterImplementationDefault D this v w) =
     issue (glGetBufferParameteriv (fst (Buffer_bindSomewhereInternal D this (m_targetHint (objects w this)) w)) v)
       (snd (Buffer_bindSomewhereInternal D this (m_targetHint (objects w this)) w))"
  by (simp_all add: Buffer_dataImplementationDefault_def Buffer_subDataImplementationDefault_def
      Buffer_mapImplementationDefault_def Buffer_getParameterImplementationDefault_def
      Let_def split_snd)

lemma Default_frame:
  assumes "j \<noteq> unat (indexForTarget D (m_targetHint (objects w this)))"
  shows "bindings (state_buffer (Buffer_dataImplementationDefault D this sz d u w)) ! j =
           bindings (state_buffer w) ! j"
    and "bindings (state_buffer (Buffer_subDataImplementationDefault D this off sz d w)) ! j =
           bindings (state_buffer w) ! j"
    and "bindings (state_buffer (snd (Buffer_mapImplementationDefault D this acc w))) ! j =
           bindings (state_buffer w) ! j"
    and "bindings (state_buffer (snd (Buffer_getParameterImplementationDefault D this v w))) ! j =
           bindings (state_buffer w) ! j"
  using assms by (simp_all add: Default_binds_first bindSomewhereInternal_frame)

lemma Default_length:
  "length (bindings (state_buffer (Buffer_dataImplementationDefault D this sz d u w))) =
     length (bindings (state_buffer w))"
  "length (bindings (state_buffer (Buffer_subDataImplementationDefault D this off sz d w))) =
     length (bindings (state_buffer w))"
  "length (bindings (state_buffer (snd (Buffer_mapImplementationDefault D this acc w)))) =
     length (bindings (state_buffer w))"
  "length (bindings (state_buffer (snd (Buffer_getParameterImplementationDefault D this v w)))) =
     length (bindings (state_buffer w))"
  by (simp_all add: Default_binds_first bindSomewhereInternal_frame)

lemma copyDefault_frame:
  "length (bindings (state_buffer (Buffer_copyImplementationDefault D rf rd wr ro wo sz w))) =
     length (bindings (state_buffer w))"
  "j \<noteq> unat (indexForTarget D CopyRead) \<Longrightarrow> j \<noteq> unat (indexForTarget D CopyWrite) \<Longrightarrow>
     bindings (state_buffer (Buffer_copyImplementationDefault D rf rd wr ro wo sz w)) ! j =
       bindings (state_buffer w) ! j"
  by (simp_all add: Buffer_copyImplementationDefault_def Let_def split_snd bindSomewhereInternal_frame)

text \<open>
  \<open>copyImplementationDefault\<close> is a call of \<open>bindSomewhereInternal\<close> on the buffer
  to read from with \<open>CopyRead\<close> and one on the buffer to write to with
  \<open>CopyWrite\<close>, in either order, the second on the state the first leaves, followed
  by \<open>glCopyBufferSubData\<close> on the two targets returned.
\<close>

lemma copyDefault_binds_both:
  "Buffer_copyImplementationDefault D readFirst rd wr ro wo sz w =
        (if readFirst
         then (let r1 = Buffer_bindSomewhereInternal D rd CopyRead w;
                   r2 = Buffer_bindSomewhereInternal D wr CopyWrite (snd r1)
               in issue (glCopyBufferSubData (fst r1) (fst r2) ro wo sz) (snd r2))
         else (let r2 = Buffer_bindSomewhereInternal D wr CopyWrite w;
                   r1 = Buffer_bindSomewhereInternal D rd CopyRead (snd r2)
               in issue (glCopyBufferSubData (fst r1) (fst r2) ro wo sz) (snd r1)))"
  by (simp add: Buffer_copyImplementationDefault_def Let_def split_snd)

text \<open>
  With nothing bound, \<open>copyImplementationDefault\<close> on two buffers changes two slots
  of the binding cache, those of \<open>CopyRead\<close> (3) and \<open>CopyWrite\<close> (4), in either
  order of evaluating its two calls of \<open>bindSomewhereInternal\<close>: it is not confined
  to one slot.
\<close>

theorem copyDefault_two_slots_counterexample:
  "bindings (state_buffer (Buffer_copyImplementationDefault desktopDecl True 0 1 0 0 8 (freshWorld everything))) ! 3
     \<noteq> bindings (state_buffer (freshWorld everything)) ! 3 \<and>
   bindings (state_buffer (Buffer_copyImplementationDefault desktopDecl True 0 1 0 0 8 (freshWorld everything))) ! 4
     \<noteq> bindings (state_buffer (freshWorld everything)) ! 4 \<and>
   bindings (state_buffer (Buffer_copyImplementationDefault desktopDecl False 0 1 0 0 8 (freshWorld everything))) ! 3
     \<noteq> bindings (state_buffer (freshWorld everything)) ! 3 \<and>
   bindings (state_buffer (Buffer_copyImplementationDefault desktopDecl False 0 1 0 0 8 (freshWorld everything))) ! 4
     \<noteq> bindings (state_buffer (freshWorld everything)) ! 4"
  by (simp add: Buffer_copyImplementationDefault_def Buffer_bindSomewhereInternal_def Let_def
      desktopDecl_def freshWorld_def freshState_def bindSomewhere_loop.simps setBinding_def
      setCreated_def issue_def)

text \<open>
  When the buffer to read from is bound to \<open>CopyWrite\<close> only and its
  \<open>bindSomewhereInternal\<close> is evaluated first, that call returns \<open>CopyWrite\<close>, the
  call for the buffer to write to then rebinds \<open>CopyWrite\<close>, and
  \<open>glCopyBufferSubData\<close> is issued with \<open>CopyWrite\<close> as both targets while the
  buffer to read from is bound nowhere.
\<close>

lemma copyDefault_stale_read_target:
  "glCalls (Buffer_copyImplementationDefault desktopDecl True 0 1 0 0 8 copyWriteBoundWorld) =
     [glBindBuffer CopyWrite 2, glCopyBufferSubData CopyWrite CopyWrite 0 0 8] \<and>
   bindings (state_buffer (Buffer_copyImplementationDefault desktopDecl True 0 1 0 0 8 copyWriteBoundWorld)) =
     [0, 0, 0, 0, 2, 0, 0, 0, 0, 0, 0, 0, 0, 0]"
  by (simp add: Buffer_copyImplementationDefault_def Buffer_bindSomewhereInternal_def Let_def
      desktopDecl_def copyWriteBoundWorld_def freshWorld_def freshState_def
      bindSomewhere_loop.simps setBinding_def setCreated_def issue_def)

text \<open>
  C5. Each of \<open>dataImplementationDSA\<close>, \<open>subDataImplementationDSA\<close>,
  \<open>copyImplementationDSA\<close>, \<open>mapImplementationDSA\<close> and
  \<open>getParameterImplementationDSA\<close> leaves the tracked buffer state, and so every
  slot of the binding cache, as it is, and issues exactly one driver call, which names
  the buffer by its id. Each of \<open>dataImplementationDefault\<close>,
  \<open>subDataImplementationDefault\<close>, \<open>mapImplementationDefault\<close> and
  \<open>getParameterImplementationDefault\<close> first calls \<open>bindSomewhereInternal\<close> on the
  buffer with its target hint, then issues its driver call on the target returned; it
  leaves every slot of the binding cache other than that of the target hint as it is.
  \<open>copyImplementationDefault\<close> calls \<open>bindSomewhereInternal\<close> on both of its
  buffers, on the one to read from with \<open>CopyRead\<close> and on the one to write to with
  \<open>CopyWrite\<close>, in either order of evaluation, then issues
  \<open>glCopyBufferSubData\<close> on the two targets returned; it leaves every slot other
  than those of \<open>CopyRead\<close> and \<open>CopyWrite\<close> as it is: it may modify up to two
  slots.
\<close>

theorem implementations_binding_cache_frame:
  "(state_buffer (Buffer_dataImplementationDSA this sz d u w) = state_buffer w \<and>
    glCalls (Buffer_dataImplementationDSA this sz d u w) =
      glCalls w @ [glNamedBufferData (m_id (objects w this)) sz d u]) \<and>
   (state_buffer (Buffer_subDataImplementationDSA this off sz d w) = state_buffer w \<and>
    glCalls (Buffer_subDataImplementationDSA this off sz d w) =
      glCalls w @ [glNamedBufferSubData (m_id (objects w this)) off sz d]) \<and>
   (state_buffer (Buffer_copyImplementationDSA rd wr ro wo sz w) = state_buffer w \<and>
    glCalls (Buffer_copyImplementationDSA rd wr ro wo sz w) =
      glCalls w @ [glCopyNamedBufferSubData (m_id (objects w rd)) (m_id (objects w wr)) ro wo sz]) \<and>
   (state_buffer (snd (Buffer_mapImplementationDSA this acc w)) = state_buffer w \<and>
    glCalls (snd (Buffer_mapImplementationDSA this acc w)) =
      glCalls w @ [glMapNamedBuffer (m_id (objects w this)) acc]) \<and>
   (state_buffer (snd (Buffer_getParameterImplementationDSA this v w)) = state_buffer w \<and>
    glCalls (snd (Buffer_getParameterImplementationDSA this v w)) =
      glCalls w @ [glGetNamedBufferParameteriv (m_id (objects w this)) v]) \<and>
   (let r = Buffer_bindSomewhereInternal D this (m_targetHint (objects w this)) w;
        slot = unat (indexForTarget D (m_targetHint (objects w this)));
        bs = bindings (state_buffer w)
    in (Buffer_dataImplementationDefault D this sz d u w = issue (glBufferData (fst r) sz d u) (snd r) \<and>
        length (bindings (state_buffer (Buffer_dataImplementationDefault D this sz d u w))) = length bs \<and>
        (\<forall>j. j \<noteq> slot \<longrightarrow>
           bindings (state_buffer (Buffer_dataImplementationDefault D this sz d u w)) ! j = bs ! j)) \<and>
       (Buffer_subDataImplementationDefault D this off sz d w =
          issue (glBufferSubData (fst r) off sz d) (snd r) \<and>
        length (bindings (state_buffer (Buffer_subDataImplementationDefault D this off sz d w))) = length bs \<and>
        (\<forall>j. j \<noteq> slot \<longrightarrow>
           bindings (state_buffer (Buffer_subDataImplementationDefault D this off sz d w)) ! j = bs ! j)) \<and>
       (snd (Buffer_mapImplementationDefault D this acc w) = issue (glMapBuffer (fst r) acc) (snd r) \<and>
        length (bindings (state_buffer (snd (Buffer_mapImplementationDefault D this acc w)))) = length bs \<and>
        (\<forall>j. j \<noteq> slot \<longrightarrow>
           bindings (state_buffer (snd (Buffer_mapImplementationDefault D this acc w))) ! j = bs ! j)) \<and>
       (snd (Buffer_getParameterImplementationDefault D this v w) =
          issue (glGetBufferParameteriv (fst r) v) (snd r) \<and>
        length (bindings (state_buffer (snd (Buffer_getParameterImplementationDefault D this v w)))) = length bs \<and>
        (\<forall>j. j \<noteq> slot \<longrightarrow>
           bindings (state_buffer (snd (Buffer_getParameterImplementationDefault D this v w))) ! j = bs ! j))) \<and>
   (Buffer_copyImplementationDefault D readFirst rd wr ro wo sz w =
      (if readFirst
       then (let r1 = Buffer_bindSomewhereInternal D rd CopyRead w;
                 r2 = Buffer_bindSomewhereInternal D wr CopyWrite (snd r1)
             in issue (glCopyBufferSubData (fst r1) (fst r2) ro wo sz) (snd r2))
       else (let r2 = Buffer_bindSomewhereInternal D wr CopyWrite w;
                 r1 = Buffer_bindSomewhereInternal D rd CopyRead (snd r2)
             in issue (glCopyBufferSubData (fst r1) (fst r2) ro wo sz) (snd r1))) \<and>
    length (bindings (state_buffer (Buffer_copyImplementationDefault D readFirst rd wr ro wo sz w))) =
      length (bindings (state_buffer w)) \<and>
    (\<forall>j. j \<noteq> unat (indexForTarget D CopyRead) \<and> j \<noteq> unat (indexForTarget D CopyWrite) \<longrightarrow>
       bindings (state_buffer (Buffer_copyImplementationDefault D readFirst rd wr ro wo sz w)) ! j =
         bindings (state_buffer w) ! j))"
proof -
  have dsa: "(state_buffer (Buffer_dataImplementationDSA this sz d u w) = state_buffer w \<and>
    glCalls (Buffer_dataImplementationDSA this sz d u w) =
      glCalls w @ [glNamedBufferData (m_id (objects w this)) sz d u]) \<and>
   (state_buffer (Buffer_subDataImplementationDSA this off sz d w) = state_buffer w \<and>
    glCalls (Buffer_subDataImplementationDSA this off sz d w) =
      glCalls w @ [glNamedBufferSubData (m_id (objects w this)) off sz d]) \<and>
   (state_buffer (Buffer_copyImplementationDSA rd wr ro wo sz w) = state_buffer w \<and>
    glCalls (Buffer_copyImplementationDSA rd wr ro wo sz w) =
      glCalls w @ [glCopyNamedBufferSubData (m_id (objects w rd)) (m_id (objects w wr)) ro wo sz]) \<and>
   (state_buffer (snd (Buffer_mapImplementationDSA this acc w)) = state_buffer w \<and>
    glCalls (snd (Buffer_mapImplementationDSA this acc w)) =
      glCalls w @ [glMapNamedBuffer (m_id (objects w this)) acc]) \<and>
   (state_buffer (snd (Buffer_getParameterImplementationDSA this v w)) = state_buffer w \<and>
    glCalls (snd (Buffer_getParameterImplementationDSA this v w)) =
      glCalls w @ [glGetNamedBufferParameteriv (m_id (objects w this)) v])"
    by (simp only: DSA_frame simp_thms)
  have copy: "Buffer_copyImplementationDefault D readFirst rd wr ro wo sz w =
      (if readFirst
       then (let r1 = Buffer_bindSomewhereInternal D rd CopyRead w;
                 r2 = Buffer_bindSomewhereInternal D wr CopyWrite (snd r1)
             in issue (glCopyBufferSubData (fst r1) (fst r2) ro wo sz) (snd r2))
       else (let r2 = Buffer_bindSomewhereInternal D wr CopyWrite w;
                 r1 = Buffer_bindSomewhereInternal D rd CopyRead (snd r2)
             in issue (glCopyBufferSubData (fst r1) (fst r2) ro wo sz) (snd r1))) \<and>
    length (bindings (state_buffer (Buffer_copyImplementationDefault D readFirst rd wr ro wo sz w))) =
      length (bindings (state_buffer w)) \<and>
    (\<forall>j. j \<noteq> unat (indexForTarget D CopyRead) \<and> j \<noteq> unat (indexForTarget D CopyWrite) \<longrightarrow>
       bindings (state_buffer (Buffer_copyImplementationDefault D readFirst rd wr ro wo sz w)) ! j =
         bindings (state_buffer w) ! j)"
    by (intro conjI allI impI, rule copyDefault_binds_both, rule copyDefault_frame(1),
        elim conjE, erule (1) copyDefault_frame(2))
  have dflt: "let r = Buffer_bindSomewhereInternal D this (m_targetHint (objects w this)) w;
        slot = unat (indexForTarget D (m_targetHint (objects w this)));
        bs = bindings (state_buffer w)
    in (Buffer_dataImplementationDefault D this sz d u w = issue (glBufferData (fst r) sz d u) (snd r) \<and>
        length (bindings (state_buffer (Buffer_dataImplementationDefault D this sz d u w))) = length bs \<and>
        (\<forall>j. j \<noteq> slot \<longrightarrow>
           bindings (state_buffer (Buffer_dataImplementationDefault D this sz d u w)) ! j = bs ! j)) \<and>
       (Buffer_subDataImplementationDefault D this off sz d w =
          issue (glBufferSubData (fst r) off sz d) (snd r) \<and>
        length (bindings (state_buffer (Buffer_subDataImplementationDefault D this off sz d w))) = length bs \<and>
        (\<forall>j. j \<noteq> slot \<longrightarrow>
           bindings (state_buffer (Buffer_subDataImplementationDefault D this off sz d w)) ! j = bs ! j)) \<and>
       (snd (Buffer_mapImplementationDefault D this acc w) = issue (glMapBuffer (fst r) acc) (snd r) \<and>
        length (bindings (state_buffer (snd (Buffer_mapImplementationDefault D this acc w)))) = length bs \<and>
        (\<forall>j. j \<noteq> slot \<longrightarrow>
           bindings (state_buffer (snd (Buffer_mapImplementationDefault D this acc w))) ! j = bs ! j)) \<and>
       (snd (Buffer_getParameterImplementationDefault D this v w) =
          issue (glGetBufferParameteriv (fst r) v) (snd r) \<and>
        length (bindings (state_buffer (snd (Buffer_getParameterImplementationDefault D this v w)))) = length bs \<and>
        (\<forall>j. j \<noteq> slot \<longrightarrow>
           bindings (state_buffer (snd (Buffer_getParameterImplementationDefault D this v w))) ! j = bs ! j))"
    unfolding Let_def
    by (intro conjI allI impI)
       (rule Default_binds_first Default_length | erule Default_frame)+
  show ?thesis
    by (insert dsa dflt copy) (elim conjE, intro conjI, assumption+)
qed


theorem implementations_binding_cache_frame_witness:
  "(2 :: nat) \<noteq> unat (indexForTarget desktopDecl (m_targetHint (objects (freshWorld everything) 0))) \<and>
   bindings (state_buffer (Buffer_dataImplementationDefault desktopDecl 0 8 64 35044 (freshWorld everything))) ! 2 =
     bindings (state_buffer (freshWorld everything)) ! 2 \<and>
   (2 :: nat) \<noteq> unat (indexForTarget desktopDecl CopyRead) \<and>
   (2 :: nat) \<noteq> unat (indexForTarget desktopDecl CopyWrite) \<and>
   bindings (state_buffer (Buffer_copyImplementationDefault desktopDecl True 0 1 0 0 8 (freshWorld everything))) ! 2 =
     bindings (state_buffer (freshWorld everything)) ! 2 \<and>
   state_buffer (Buffer_dataImplementationDSA 0 8 64 35044 (freshWorld everything)) =
     state_buffer (freshWorld everything) \<and>
   glCalls (Buffer_dataImplementationDSA 0 8 64 35044 (freshWorld everything)) =
     [glNamedBufferData 1 8 64 35044] \<and>
   glCalls (Buffer_copyImplementationDefault desktopDecl True 0 1 0 0 8 (freshWorld everything)) =
     [glBindBuffer CopyRead 1, glBindBuffer CopyWrite 2, glCopyBufferSubData CopyRead CopyWrite 0 0 8]"
proof -
  note t = implementations_binding_cache_frame [where this = 0 and w = "freshWorld everything"
      and D = desktopDecl and sz = 8 and d = 64 and u = 35044 and rd = 0 and wr = 1 and ro = 0
      and wo = 0 and readFirst = True and off = 0 and acc = 0 and v = 0,
      unfolded Let_def]
  have h1: "(2 :: nat) \<noteq> unat (indexForTarget desktopDecl (m_targetHint (objects (freshWorld everything) 0)))"
    by (simp add: desktopDecl_def freshWorld_def)
  have h2: "(2 :: nat) \<noteq> unat (indexForTarget desktopDecl CopyRead) \<and>
      (2 :: nat) \<noteq> unat (indexForTarget desktopDecl CopyWrite)"
    by (simp add: desktopDecl_def)
  have e: "m_id (objects (freshWorld everything) 0) = 1" "glCalls (freshWorld everything) = []"
    by (simp_all add: freshWorld_def)
  from t have "\<forall>j. j \<noteq> unat (indexForTarget desktopDecl (m_targetHint (objects (freshWorld everything) 0))) \<longrightarrow>
      bindings (state_buffer (Buffer_dataImplementationDefault desktopDecl 0 8 64 35044 (freshWorld everything))) ! j =
        bindings (state_buffer (freshWorld everything)) ! j"
    by blast
  with h1 have a: "bindings (state_buffer (Buffer_dataImplementationDefault desktopDecl 0 8 64 35044 (freshWorld everything))) ! 2 =
      bindings (state_buffer (freshWorld everything)) ! 2"
    by blast
  from t have "\<forall>j. j \<noteq> unat (indexForTarget desktopDecl CopyRead) \<and> j \<noteq> unat (indexForTarget desktopDecl CopyWrite) \<longrightarrow>
      bindings (state_buffer (Buffer_copyImplementationDefault desktopDecl True 0 1 0 0 8 (freshWorld everything))) ! j =
        bindings (state_buffer (freshWorld everything)) ! j"
    by blast
  with h2 have b: "bindings (state_buffer (Buffer_copyImplementationDefault desktopDecl True 0 1 0 0 8 (freshWorld everything))) ! 2 =
      bindings (state_buffer (freshWorld everything)) ! 2"
    by blast
  from t have "state_buffer (Buffer_dataImplementationDSA 0 8 64 35044 (freshWorld everything)) =
      state_buffer (freshWorld everything) \<and>
    glCalls (Buffer_dataImplementationDSA 0 8 64 35044 (freshWorld everything)) =
      glCalls (freshWorld everything) @
        [glNamedBufferData (m_id (objects (freshWorld everything) 0)) 8 64 35044]"
    by blast
  then have c: "state_buffer (Buffer_dataImplementationDSA 0 8 64 35044 (freshWorld everything)) =
      state_buffer (freshWorld everything) \<and>
    glCalls (Buffer_dataImplementationDSA 0 8 64 35044 (freshWorld everything)) =
      [glNamedBufferData 1 8 64 35044]"
    by (simp add: e)
  note t2 = implementations_binding_cache_frame [where this = 0 and w = "freshWorld everything"
      and D = desktopDecl and sz = 8 and d = 64 and u = 35044 and rd = 0 and wr = 1 and ro = 0
      and wo = 0 and readFirst = True and off = 0 and acc = 0 and v = 0]
  from t2 have "Buffer_copyImplementationDefault desktopDecl True 0 1 0 0 8 (freshWorld everything) =
      (if True
       then (let r1 = Buffer_bindSomewhereInternal desktopDecl 0 CopyRead (freshWorld everything);
                 r2 = Buffer_bindSomewhereInternal desktopDecl 1 CopyWrite (snd r1)
             in issue (glCopyBufferSubData (fst r1) (fst r2) 0 0 8) (snd r2))
       else (let r2 = Buffer_bindSomewhereInternal desktopDecl 1 CopyWrite (freshWorld everything);
                 r1 = Buffer_bindSomewhereInternal desktopDecl 0 CopyRead (snd r2)
             in issue (glCopyBufferSubData (fst r1) (fst r2) 0 0 8) (snd r1)))"
    by blast
  then have g: "glCalls (Buffer_copyImplementationDefault desktopDecl True 0 1 0 0 8 (freshWorld everything)) =
      [glBindBuffer CopyRead 1, glBindBuffer CopyWrite 2, glCopyBufferSubData CopyRead CopyWrite 0 0 8]"
    by (simp add: Buffer_bindSomewhereInternal_def Let_def desktopDecl_def freshWorld_def
        freshState_def bindSomewhere_loop.simps)
  from h1 h2 a b c g show ?thesis
    by blast
qed

end
